theory Spec2Isabelle
  imports Main
begin

section \<open>Python values and library functions\<close>

text \<open>
  The client in \<^verbatim>\<open>gitlab_api.py\<close> is dynamically typed: \<^verbatim>\<open>_make_request\<close> returns
  whatever \<^verbatim>\<open>json.loads\<close> produced, or the raw response text. Values are modelled by
  one datatype. A Python \<^verbatim>\<open>str\<close> is a list of characters with code points 0..255
  (the Latin-1 part of Unicode); \<^verbatim>\<open>bytes\<close> is a list of bytes, and \<open>char\<close> is the type
  of the 256 byte values as well. Floats do not occur in the fields the code reads and
  are left out. A dict is an association list, looked up with \<open>map_of\<close>.
\<close>

type_synonym bytes = "char list"

datatype pyval =
    PyNone
  | PyBool bool
  | PyInt int
  | PyStr string
  | PyBytes bytes
  | PyList "pyval list"
  | PyDict "(string \<times> pyval) list"

text \<open>
  Exceptions are values. \<open>Exception msg\<close> is the plain \<^verbatim>\<open>Exception\<close> raised at the end of
  \<^verbatim>\<open>_make_request\<close>; \<open>ReError\<close> is \<^verbatim>\<open>re.error\<close>; \<open>OtherError cls\<close> is any other exception,
  named by its class.
\<close>

datatype exn =
    Exception string
  | UnicodeDecodeError
  | TimeoutExpired
  | JSONDecodeError
  | ReError
  | OtherError string

text \<open>
  Functions of the Python standard library whose internals the client does not
  depend on are parameters: JSON, UTF-8 decoding, base64, URL quoting and the
  regular-expression engine (\<open>'r\<close> is the type of compiled patterns). A function that
  can raise more than one exception returns a sum, \<open>Inl e\<close> for the exception \<open>e\<close>:
  \<^verbatim>\<open>json.loads\<close> raises \<^verbatim>\<open>JSONDecodeError\<close> on a text that is not JSON, but also
  \<^verbatim>\<open>ValueError\<close> on an integer of more than 4300 digits and \<^verbatim>\<open>RecursionError\<close> on deep
  nesting; \<^verbatim>\<open>re.compile\<close> raises \<^verbatim>\<open>re.error\<close> on a pattern that is not well formed, but also
  \<^verbatim>\<open>OverflowError\<close> on a repetition count beyond the limit of the engine and
  \<^verbatim>\<open>RecursionError\<close> on deep nesting; \<^verbatim>\<open>base64.b64decode\<close> raises \<^verbatim>\<open>binascii.Error\<close> or
  \<^verbatim>\<open>ValueError\<close>. Decoding UTF-8 raises \<^verbatim>\<open>UnicodeDecodeError\<close> only, the value \<open>None\<close>.
  \<open>re_search r s\<close> is \<open>Some g\<close> when \<^verbatim>\<open>r.search(s)\<close> is a match object whose \<^verbatim>\<open>group()\<close> is
  \<open>g\<close>. The flag of \<open>re_compile\<close> is \<^verbatim>\<open>re.IGNORECASE\<close>.
\<close>

record 'r pylib =
  json_loads :: "string \<Rightarrow> exn + pyval"
  json_dumps :: "pyval \<Rightarrow> string"
  utf8_decode :: "bytes \<Rightarrow> string option"
  utf8_replace :: "bytes \<Rightarrow> string"
  b64decode :: "string \<Rightarrow> exn + bytes"
  quote :: "string \<Rightarrow> string"
  re_compile :: "string \<Rightarrow> bool \<Rightarrow> exn + 'r"
  re_search :: "'r \<Rightarrow> string \<Rightarrow> string option"
  re_escape :: "string \<Rightarrow> string"

text \<open>\<^verbatim>\<open>bytes.decode('latin-1')\<close>: every byte is the code point of one character.\<close>

definition latin1_decode :: "bytes \<Rightarrow> string" where
  "latin1_decode bs = bs"

text \<open>Truth value of an object, as \<^verbatim>\<open>if data:\<close> tests it.\<close>

fun truthy :: "pyval \<Rightarrow> bool" where
  "truthy PyNone = False"
| "truthy (PyBool b) = b"
| "truthy (PyInt i) = (i \<noteq> 0)"
| "truthy (PyStr s) = (s \<noteq> [])"
| "truthy (PyBytes b) = (b \<noteq> [])"
| "truthy (PyList xs) = (xs \<noteq> [])"
| "truthy (PyDict kvs) = (kvs \<noteq> [])"

text \<open>\<^verbatim>\<open>str(n)\<close> for an integer, as the f-strings format it.\<close>

fun str_nat :: "nat \<Rightarrow> string" where
  "str_nat n =
     (if n < 10 then [char_of (48 + n)]
      else str_nat (n div 10) @ [char_of (48 + n mod 10)])"

declare str_nat.simps [simp del]

definition str_int :: "int \<Rightarrow> string" where
  "str_int i = (if i < 0 then CHR ''-'' # str_nat (nat (- i)) else str_nat (nat i))"

section \<open>The transport: \<^verbatim>\<open>_make_request\<close>\<close>

text \<open>
  One execution of \<^verbatim>\<open>curl\<close> by \<^verbatim>\<open>subprocess.run\<close> ends in one of three ways: the process
  completes with an exit code and the bytes of its two output streams, the 30 second
  timeout expires, or the call raises something else (the class is named).
\<close>

datatype proc_out =
    Completed int bytes bytes
  | Timed_out
  | Raised string

text \<open>
  The host is a script: \<open>H n cmd\<close> is how the \<open>n\<close>-th execution of a command since the start
  ends when the command is \<open>cmd\<close>. The world counts the executions so far, the seconds
  slept, and keeps what was handed to the logger.
\<close>

type_synonym host = "nat \<Rightarrow> string list \<Rightarrow> proc_out"

datatype captured = Text string | Raw bytes

datatype log_entry =
    Attempt_failed int captured
  | Attempt_timed_out int
  | Request_failed exn
  | Failed_to_search pyval exn

record world =
  runs :: nat
  slept :: nat
  logged :: "log_entry list"

definition log_msg :: "log_entry \<Rightarrow> world \<Rightarrow> world" where
  "log_msg e w = w\<lparr>logged := logged w @ [e]\<rparr>"

definition sleep :: "nat \<Rightarrow> world \<Rightarrow> world" where
  "sleep secs w = w\<lparr>slept := slept w + secs\<rparr>"

record client =
  token :: string
  base_url :: string
  project_id :: string

text \<open>
  The object bound to \<^verbatim>\<open>result\<close>: a \<^verbatim>\<open>CompletedProcess\<close> in text mode (both streams
  \<open>Text\<close>), one in binary mode (both \<open>Raw\<close>), or the \<^verbatim>\<open>MockResult\<close>.
\<close>

record result =
  returncode :: int
  stdout :: captured
  stderr :: captured

fun nonempty :: "captured \<Rightarrow> bool" where
  "nonempty (Text s) = (s \<noteq> [])"
| "nonempty (Raw b) = (b \<noteq> [])"

text \<open>
  The newlines of text mode: after decoding, \<^verbatim>\<open>subprocess\<close> replaces every \<^verbatim>\<open>\r\n\<close> and
  then every \<^verbatim>\<open>\r\<close> by \<^verbatim>\<open>\n\<close>.
\<close>

fun universal_newlines :: "string \<Rightarrow> string" where
  "universal_newlines [] = []"
| "universal_newlines [c] = (if c = CHR 0x0D then [CHR 0x0A] else [c])"
| "universal_newlines (c # d # cs) =
     (if c = CHR 0x0D then
        (if d = CHR 0x0A then CHR 0x0A # universal_newlines cs
         else CHR 0x0A # universal_newlines (d # cs))
      else c # universal_newlines (d # cs))"

text \<open>
  \<^verbatim>\<open>subprocess.run(cmd, capture_output=True, text=True, timeout=30, encoding='utf-8')\<close>:
  both streams are decoded and their newlines translated, and a stream that is not UTF-8
  raises.
\<close>

definition run_text :: "'r pylib \<Rightarrow> host \<Rightarrow> string list \<Rightarrow> world \<Rightarrow> (exn + result) \<times> world" where
  "run_text L H cmd w =
     (case H (runs w) cmd of
        Completed rc out err \<Rightarrow>
          (case utf8_decode L out of
             None \<Rightarrow> Inl UnicodeDecodeError
           | Some so \<Rightarrow>
               (case utf8_decode L err of
                  None \<Rightarrow> Inl UnicodeDecodeError
                | Some se \<Rightarrow>
                    Inr \<lparr>returncode = rc, stdout = Text (universal_newlines so),
                         stderr = Text (universal_newlines se)\<rparr>))
      | Timed_out \<Rightarrow> Inl TimeoutExpired
      | Raised cls \<Rightarrow> Inl (OtherError cls),
      w\<lparr>runs := Suc (runs w)\<rparr>)"

text \<open>\<^verbatim>\<open>subprocess.run(cmd, capture_output=True, timeout=30)\<close>: the streams stay bytes.\<close>

definition run_binary :: "host \<Rightarrow> string list \<Rightarrow> world \<Rightarrow> (exn + result) \<times> world" where
  "run_binary H cmd w =
     (case H (runs w) cmd of
        Completed rc out err \<Rightarrow> Inr \<lparr>returncode = rc, stdout = Raw out, stderr = Raw err\<rparr>
      | Timed_out \<Rightarrow> Inl TimeoutExpired
      | Raised cls \<Rightarrow> Inl (OtherError cls),
      w\<lparr>runs := Suc (runs w)\<rparr>)"

text \<open>
  \<^verbatim>\<open>MockResult(result.returncode, stdout, result.stderr)\<close>, with \<^verbatim>\<open>stdout\<close> decoded as
  UTF-8 and else as Latin-1 (which cannot fail, so the third decoding of the source is
  never reached), and a \<^verbatim>\<open>bytes\<close> stderr decoded with replacement characters.
\<close>

definition mock_result :: "'r pylib \<Rightarrow> int \<Rightarrow> bytes \<Rightarrow> captured \<Rightarrow> result" where
  "mock_result L rc out err =
     \<lparr>returncode = rc,
      stdout = Text (case utf8_decode L out of Some s \<Rightarrow> s | None \<Rightarrow> latin1_decode out),
      stderr = (case err of Raw b \<Rightarrow> Text (utf8_replace L b) | Text s \<Rightarrow> Text s)\<rparr>"

text \<open>
  Lines 75 to 96: the text-mode execution and, when it raises \<^verbatim>\<open>UnicodeDecodeError\<close>, a
  second execution of the same command in binary mode. An exception of the second
  execution leaves the inner \<^verbatim>\<open>try\<close> and reaches the handlers of the outer one.
\<close>

definition run_curl :: "'r pylib \<Rightarrow> host \<Rightarrow> string list \<Rightarrow> world \<Rightarrow> (exn + result) \<times> world" where
  "run_curl L H cmd w =
     (case run_text L H cmd w of
        (Inr r, w1) \<Rightarrow> (Inr r, w1)
      | (Inl e, w1) \<Rightarrow>
          if e = UnicodeDecodeError then
            (case run_binary H cmd w1 of
               (Inl e2, w2) \<Rightarrow> (Inl e2, w2)
             | (Inr r, w2) \<Rightarrow>
                 (case stdout r of
                    Raw out \<Rightarrow>
                      if returncode r = 0 \<and> out \<noteq> []
                      then (Inr (mock_result L (returncode r) out (stderr r)), w2)
                      else (Inr r, w2)
                  | Text s \<Rightarrow> (Inr r, w2)))
          else (Inl e, w1))"

text \<open>The command line of lines 58 to 72.\<close>

definition build_cmd :: "'r pylib \<Rightarrow> client \<Rightarrow> string \<Rightarrow> string \<Rightarrow> pyval option \<Rightarrow> string list" where
  "build_cmd L C url method data =
     [''curl'', ''-k'', ''-s'', ''--connect-timeout'', ''10'', ''--max-time'', ''20'',
      ''-H'', ''Authorization: Bearer '' @ token C,
      ''-H'', ''Content-Type: application/json'']
     @ (if method \<noteq> ''GET'' then [''-X'', method] else [])
     @ (case data of
          None \<Rightarrow> []
        | Some d \<Rightarrow> if truthy d then [''-d'', json_dumps L d] else [])
     @ [url]"

text \<open>\<^verbatim>\<open>if attempt < retries: await asyncio.sleep(2)\<close>\<close>

definition backoff :: "int \<Rightarrow> int \<Rightarrow> world \<Rightarrow> world" where
  "backoff retries n w = (if n < retries then sleep 2 w else w)"

text \<open>
  Lines 99 to 103, the inner \<^verbatim>\<open>try\<close>: \<^verbatim>\<open>json.loads\<close> returns a value; or it raises
  \<^verbatim>\<open>JSONDecodeError\<close> and the text is returned as it is; or it raises something else,
  which leaves the inner \<^verbatim>\<open>try\<close>.
\<close>

definition loads_or_text :: "'r pylib \<Rightarrow> string \<Rightarrow> exn + pyval" where
  "loads_or_text L s =
     (case json_loads L s of
        Inr v \<Rightarrow> Inr v
      | Inl e \<Rightarrow> if e = JSONDecodeError then Inr (PyStr s) else Inl e)"

text \<open>
  Lines 109 to 116, the two handlers of the outer \<^verbatim>\<open>try\<close>: what they log, and the sleep.
\<close>

definition handler :: "int \<Rightarrow> int \<Rightarrow> exn \<Rightarrow> world \<Rightarrow> world" where
  "handler retries n e w =
     (if e = TimeoutExpired then backoff retries n (log_msg (Attempt_timed_out n) w)
      else backoff retries n (log_msg (Request_failed e) w))"

text \<open>
  One iteration of the loop: either the function returns a value, or the iteration ends
  (after a log entry and perhaps a sleep) and the loop goes on. Given \<^verbatim>\<open>bytes\<close>,
  \<^verbatim>\<open>json.loads\<close> decodes first, and a decoding error is caught by \<^verbatim>\<open>except Exception\<close>.
\<close>

datatype 'a step = Return 'a | Next

definition attempt :: "'r pylib \<Rightarrow> host \<Rightarrow> string list \<Rightarrow> int \<Rightarrow> int \<Rightarrow> world \<Rightarrow> pyval step \<times> world" where
  "attempt L H cmd retries n w =
     (case run_curl L H cmd w of
        (Inr r, w1) \<Rightarrow>
          if returncode r = 0 \<and> nonempty (stdout r) then
            (case stdout r of
               Text s \<Rightarrow>
                 (case loads_or_text L s of
                    Inr v \<Rightarrow> (Return v, w1)
                  | Inl e \<Rightarrow> (Next, handler retries n e w1))
             | Raw b \<Rightarrow>
                 (case utf8_decode L b of
                    None \<Rightarrow> (Next, handler retries n UnicodeDecodeError w1)
                  | Some s \<Rightarrow>
                      (case json_loads L s of
                         Inr v \<Rightarrow> (Return v, w1)
                       | Inl e \<Rightarrow>
                           if e = JSONDecodeError then (Return (PyBytes b), w1)
                           else (Next, handler retries n e w1))))
          else (Next, backoff retries n (log_msg (Attempt_failed n (stderr r)) w1))
      | (Inl e, w1) \<Rightarrow> (Next, handler retries n e w1))"

text \<open>\<^verbatim>\<open>for attempt in range(1, retries + 1)\<close>, over the list of attempt numbers.\<close>

fun attempts :: "'r pylib \<Rightarrow> host \<Rightarrow> string list \<Rightarrow> int \<Rightarrow> int list \<Rightarrow> world \<Rightarrow> pyval option \<times> world" where
  "attempts L H cmd retries [] w = (None, w)"
| "attempts L H cmd retries (n # ns) w =
     (case attempt L H cmd retries n w of
        (Return v, w1) \<Rightarrow> (Some v, w1)
      | (Next, w1) \<Rightarrow> attempts L H cmd retries ns w1)"

definition exhausted :: "int \<Rightarrow> string \<Rightarrow> exn" where
  "exhausted retries endpoint =
     Exception (''API request failed after '' @ str_int retries @ '' attempts: '' @ endpoint)"

definition make_request ::
  "'r pylib \<Rightarrow> host \<Rightarrow> client \<Rightarrow> string \<Rightarrow> string \<Rightarrow> pyval option \<Rightarrow> int \<Rightarrow> world
     \<Rightarrow> (exn + pyval) \<times> world" where
  "make_request L H C endpoint method data retries w =
     (let url = base_url C @ endpoint;
          cmd = build_cmd L C url method data
      in case attempts L H cmd retries [1..retries] w of
           (Some v, w1) \<Rightarrow> (Inr v, w1)
         | (None, w1) \<Rightarrow> (Inl (exhausted retries endpoint), w1))"

section \<open>Strings, slices and shell patterns\<close>

text \<open>
  \<^verbatim>\<open>str.lower()\<close> on code points below 256: the ASCII capitals and the Latin-1 capitals
  (U+00C0 to U+00DE without the multiplication sign) move up by 32.
\<close>

definition lower_char :: "char \<Rightarrow> char" where
  "lower_char c =
     (let n = (of_char c :: nat)
      in if (65 \<le> n \<and> n \<le> 90) \<or> (192 \<le> n \<and> n \<le> 222 \<and> n \<noteq> 215)
         then char_of (n + 32) else c)"

definition lower :: "string \<Rightarrow> string" where
  "lower s = map lower_char s"

text \<open>\<^verbatim>\<open>s.endswith(suffix)\<close>\<close>

definition endswith :: "string \<Rightarrow> string \<Rightarrow> bool" where
  "endswith s suffix =
     (length suffix \<le> length s \<and> drop (length s - length suffix) s = suffix)"

text \<open>\<^verbatim>\<open>sub in s\<close> for two strings.\<close>

fun contains :: "string \<Rightarrow> string \<Rightarrow> bool" where
  "contains sub [] = (sub = [])"
| "contains sub (c # cs) = (take (length sub) (c # cs) = sub \<or> contains sub cs)"

text \<open>\<^verbatim>\<open>content.split('\n')\<close>: never empty; a text ending in a newline ends in an empty line.\<close>

fun split_lines :: "string \<Rightarrow> string list" where
  "split_lines [] = [[]]"
| "split_lines (c # cs) =
     (if c = CHR 0x0A then [] # split_lines cs
      else (case split_lines cs of
              [] \<Rightarrow> [[c]]
            | l # ls \<Rightarrow> (c # l) # ls))"

text \<open>\<^verbatim>\<open>line.strip()\<close>: the characters below 256 for which \<^verbatim>\<open>isspace()\<close> holds.\<close>

definition is_space :: "char \<Rightarrow> bool" where
  "is_space c =
     (let n = (of_char c :: nat)
      in (9 \<le> n \<and> n \<le> 13) \<or> (28 \<le> n \<and> n \<le> 32) \<or> n = 133 \<or> n = 160)"

definition strip :: "string \<Rightarrow> string" where
  "strip s = rev (dropWhile is_space (rev (dropWhile is_space s)))"

text \<open>\<^verbatim>\<open>'&'.join(params)\<close>\<close>

fun join :: "string \<Rightarrow> string list \<Rightarrow> string" where
  "join sep [] = []"
| "join sep [x] = x"
| "join sep (x # y # ys) = x @ sep @ join sep (y # ys)"

text \<open>
  \<^verbatim>\<open>xs[start:stop]\<close>: a negative index counts from the end, and both are clamped to the
  list, so a slice never raises.
\<close>

definition slice_index :: "nat \<Rightarrow> int \<Rightarrow> nat" where
  "slice_index n i = (if i < 0 then nat (max (i + int n) 0) else min (nat i) n)"

definition py_slice :: "'a list \<Rightarrow> int \<Rightarrow> int \<Rightarrow> 'a list" where
  "py_slice xs start stop =
     (let a = slice_index (length xs) start; b = slice_index (length xs) stop
      in take (b - a) (drop a xs))"

text \<open>\<^verbatim>\<open>enumerate(lines, 1)\<close>\<close>

fun enumerate :: "int \<Rightarrow> 'a list \<Rightarrow> (int \<times> 'a) list" where
  "enumerate n [] = []"
| "enumerate n (x # xs) = (n, x) # enumerate (n + 1) xs"

text \<open>
  \<^verbatim>\<open>fnmatch.fnmatch(name, pat)\<close> of the standard library, on a POSIX system (where
  \<^verbatim>\<open>os.path.normcase\<close> changes nothing). \<^verbatim>\<open>fnmatch.translate\<close> turns the pattern into a
  regular expression that must match the whole name: \<^verbatim>\<open>*\<close> becomes \<^verbatim>\<open>.*\<close> under the flag
  that lets the dot match every character, \<^verbatim>\<open>?\<close> one such dot, \<^verbatim>\<open>[seq]\<close> a character
  set, and every other character itself. The path separator has no special role.
\<close>

datatype tok = Star | Anychar | Lit char | Never | Charset bool "string list"

text \<open>
  The index of the \<^verbatim>\<open>]\<close> that closes a set, in the text after the \<^verbatim>\<open>[\<close>: a leading
  \<^verbatim>\<open>!\<close> and a \<^verbatim>\<open>]\<close> right after it do not close. \<open>None\<close>: the set is not closed.
\<close>

definition find_close :: "string \<Rightarrow> nat option" where
  "find_close rest =
     (let j0 = (if rest \<noteq> [] \<and> hd rest = CHR ''!'' then 1 else 0);
          j1 = (if j0 < length rest \<and> rest ! j0 = CHR '']'' then j0 + 1 else j0);
          j = j1 + length (takeWhile (\<lambda>c. c \<noteq> CHR '']'') (drop j1 rest))
      in if j \<ge> length rest then None else Some j)"

text \<open>
  The chunks between the hyphens that make ranges: a hyphen makes a range when it is
  not among the first \<open>sk\<close> characters of the chunk being read.
\<close>

fun chunks_aux :: "nat \<Rightarrow> string \<Rightarrow> string \<Rightarrow> string list" where
  "chunks_aux sk acc [] = [acc]"
| "chunks_aux sk acc (c # cs) =
     (if c = CHR ''-'' \<and> sk = 0 then acc # chunks_aux 2 [] cs
      else chunks_aux (sk - 1) (acc @ [c]) cs)"

definition chunks_of :: "string \<Rightarrow> string list" where
  "chunks_of stuff =
     (let cs = chunks_aux (if hd stuff = CHR ''!'' then 2 else 1) [] stuff
      in if last cs = [] \<and> length cs > 1
         then butlast (butlast cs) @ [last (butlast cs) @ ''-'']
         else cs)"

text \<open>Removal of the empty ranges, from the last chunk to the first.\<close>

fun merge_ranges :: "string list \<Rightarrow> string list" where
  "merge_ranges [] = []"
| "merge_ranges [c] = [c]"
| "merge_ranges (c # d # ds) =
     (case merge_ranges (d # ds) of
        [] \<Rightarrow> [c]
      | e # es \<Rightarrow>
          if (of_char (last c) :: nat) > of_char (hd e)
          then (butlast c @ tl e) # es
          else c # e # es)"

definition bracket :: "string \<Rightarrow> tok" where
  "bracket stuff =
     (let chunks = (if CHR ''-'' \<in> set stuff then merge_ranges (chunks_of stuff) else [stuff])
      in if chunks = [[]] then Never
         else if chunks = [''!''] then Anychar
         else if hd (hd chunks) = CHR ''!'' then Charset True (tl (hd chunks) # tl chunks)
         else Charset False chunks)"

function translate :: "string \<Rightarrow> tok list" where
  "translate [] = []"
| "translate (c # cs) =
     (if c = CHR ''*'' then
        (case translate cs of
           Star # ts \<Rightarrow> Star # ts
         | ts \<Rightarrow> Star # ts)
      else if c = CHR ''?'' then Anychar # translate cs
      else if c = CHR ''['' then
        (case find_close cs of
           None \<Rightarrow> Lit CHR ''['' # translate cs
         | Some j \<Rightarrow> bracket (take j cs) # translate (drop (Suc j) cs))
      else Lit c # translate cs)"
  by pat_completeness auto
termination
  by (relation "measure length") auto

text \<open>A character is in a set when a chunk holds it or a range between two chunks does.\<close>

fun in_ranges :: "string list \<Rightarrow> char \<Rightarrow> bool" where
  "in_ranges (c # d # ds) x =
     (((of_char (last c) :: nat) \<le> of_char x \<and> (of_char x :: nat) \<le> of_char (hd d))
      \<or> in_ranges (d # ds) x)"
| "in_ranges cs x = False"

fun matches1 :: "tok \<Rightarrow> char \<Rightarrow> bool" where
  "matches1 Star x = True"
| "matches1 Anychar x = True"
| "matches1 (Lit c) x = (x = c)"
| "matches1 Never x = False"
| "matches1 (Charset neg chunks) x =
     (neg \<noteq> ((\<exists>c \<in> set chunks. x \<in> set c) \<or> in_ranges chunks x))"

fun glob_match :: "tok list \<Rightarrow> string \<Rightarrow> bool" where
  "glob_match [] s = (s = [])"
| "glob_match (Star # ts) [] = glob_match ts []"
| "glob_match (Star # ts) (x # xs) = (glob_match ts (x # xs) \<or> glob_match (Star # ts) xs)"
| "glob_match (t # ts) [] = False"
| "glob_match (t # ts) (x # xs) = (matches1 t x \<and> glob_match ts xs)"

definition fnmatch :: "string \<Rightarrow> string \<Rightarrow> bool" where
  "fnmatch name pat = glob_match (translate pat) name"

section \<open>Operations on dynamically typed values\<close>

text \<open>\<^verbatim>\<open>for item in x\<close>: a list gives its items, a dict its keys, a string its characters.\<close>

fun py_iter :: "pyval \<Rightarrow> exn + pyval list" where
  "py_iter (PyList xs) = Inr xs"
| "py_iter (PyDict kvs) = Inr (map (\<lambda>kv. PyStr (fst kv)) kvs)"
| "py_iter (PyStr s) = Inr (map (\<lambda>c. PyStr [c]) s)"
| "py_iter (PyBytes b) = Inr (map (\<lambda>c. PyInt (of_char c)) b)"
| "py_iter v = Inl (OtherError ''TypeError'')"

text \<open>\<^verbatim>\<open>x.get(key, default)\<close>: only a dict has the method.\<close>

fun dict_get :: "pyval \<Rightarrow> string \<Rightarrow> pyval \<Rightarrow> exn + pyval" where
  "dict_get (PyDict kvs) key dflt =
     Inr (case map_of kvs key of Some v \<Rightarrow> v | None \<Rightarrow> dflt)"
| "dict_get v key dflt = Inl (OtherError ''AttributeError'')"

text \<open>\<^verbatim>\<open>x[key]\<close> for a string key: a missing key raises.\<close>

fun subscript :: "pyval \<Rightarrow> string \<Rightarrow> exn + pyval" where
  "subscript (PyDict kvs) key =
     (case map_of kvs key of Some v \<Rightarrow> Inr v | None \<Rightarrow> Inl (OtherError ''KeyError''))"
| "subscript v key = Inl (OtherError ''TypeError'')"

text \<open>\<^verbatim>\<open>x[:stop]\<close>, ready to be iterated over.\<close>

fun slice_to :: "pyval \<Rightarrow> int \<Rightarrow> exn + pyval list" where
  "slice_to (PyList xs) stop = Inr (py_slice xs 0 stop)"
| "slice_to (PyStr s) stop = Inr (map (\<lambda>c. PyStr [c]) (py_slice s 0 stop))"
| "slice_to (PyBytes b) stop = Inr (map (\<lambda>c. PyInt (of_char c)) (py_slice b 0 stop))"
| "slice_to v stop = Inl (OtherError ''TypeError'')"

text \<open>\<^verbatim>\<open>if s:\<close> for an optional string argument.\<close>

fun given :: "string option \<Rightarrow> bool" where
  "given None = False"
| "given (Some s) = (s \<noteq> [])"

text \<open>
  \<^verbatim>\<open>sub.lower() in x.lower()\<close> for a string \<open>sub\<close>: only strings and bytes have
  \<^verbatim>\<open>lower\<close>, and a string is never sought in bytes.
\<close>

fun lower_contains :: "string \<Rightarrow> pyval \<Rightarrow> exn + bool" where
  "lower_contains sub (PyStr s) = Inr (contains (lower sub) (lower s))"
| "lower_contains sub (PyBytes b) = Inl (OtherError ''TypeError'')"
| "lower_contains sub v = Inl (OtherError ''AttributeError'')"

section \<open>Repository tree, files and commits\<close>

definition get_repository_tree ::
  "'r pylib \<Rightarrow> host \<Rightarrow> client \<Rightarrow> string \<Rightarrow> string \<Rightarrow> string \<Rightarrow> bool \<Rightarrow> int \<Rightarrow> world
     \<Rightarrow> (exn + pyval) \<times> world" where
  "get_repository_tree L H C project path ref recursive per_page w =
     (let endpoint = ''/api/v4/projects/'' @ project @ ''/repository/tree'';
          params = [''ref='' @ ref, ''per_page='' @ str_int per_page]
                   @ (if path \<noteq> [] then [''path='' @ quote L path] else [])
                   @ (if recursive then [''recursive=true''] else [])
      in make_request L H C (endpoint @ ''?'' @ join ''&'' params) ''GET'' None 3 w)"

text \<open>
  \<^verbatim>\<open>get_file\<close>: the path is whatever the caller passes (\<^verbatim>\<open>quote\<close> raises unless it is a
  string); the content of a dict response is decoded from base64 and then, strictly, from
  UTF-8, and stored back under the same key.
\<close>

definition decode_content :: "'r pylib \<Rightarrow> pyval \<Rightarrow> exn + string" where
  "decode_content L c =
     (case (case c of
              PyStr s \<Rightarrow> b64decode L s
            | PyBytes b \<Rightarrow> b64decode L (latin1_decode b)
            | _ \<Rightarrow> Inl (OtherError ''TypeError'')) of
        Inl e \<Rightarrow> Inl e
      | Inr bs \<Rightarrow>
          (case utf8_decode L bs of
             None \<Rightarrow> Inl UnicodeDecodeError
           | Some t \<Rightarrow> Inr t))"

definition get_file ::
  "'r pylib \<Rightarrow> host \<Rightarrow> client \<Rightarrow> string \<Rightarrow> pyval \<Rightarrow> string \<Rightarrow> world \<Rightarrow> (exn + pyval) \<times> world" where
  "get_file L H C project file_path ref w =
     (case file_path of
        PyStr p \<Rightarrow>
          (let endpoint = ''/api/v4/projects/'' @ project @ ''/repository/files/''
                          @ quote L p @ ''?ref='' @ ref
           in case make_request L H C endpoint ''GET'' None 3 w of
                (Inl e, w1) \<Rightarrow> (Inl e, w1)
              | (Inr res, w1) \<Rightarrow>
                  (case res of
                     PyDict kvs \<Rightarrow>
                       (case map_of kvs ''content'' of
                          None \<Rightarrow> (Inr res, w1)
                        | Some c \<Rightarrow>
                            (case decode_content L c of
                               Inl e \<Rightarrow> (Inl e, w1)
                             | Inr t \<Rightarrow>
                                 (Inr (PyDict (map (\<lambda>kv. if fst kv = ''content''
                                                          then (fst kv, PyStr t) else kv) kvs)),
                                  w1)))
                   | _ \<Rightarrow> (Inr res, w1)))
      | _ \<Rightarrow> (Inl (OtherError ''TypeError''), w))"

definition list_commits ::
  "'r pylib \<Rightarrow> host \<Rightarrow> client \<Rightarrow> string \<Rightarrow> string option \<Rightarrow> string option \<Rightarrow> string option
     \<Rightarrow> world \<Rightarrow> (exn + pyval) \<times> world" where
  "list_commits L H C project ref_name since until w =
     (let endpoint = ''/api/v4/projects/'' @ project @ ''/repository/commits'';
          params = (if given ref_name then [''ref_name='' @ the ref_name] else [])
                   @ (if given since then [''since='' @ the since] else [])
                   @ (if given until then [''until='' @ the until] else []);
          endpoint = (if params \<noteq> [] then endpoint @ ''?'' @ join ''&'' params else endpoint)
      in make_request L H C endpoint ''GET'' None 3 w)"

section \<open>File discovery: \<^verbatim>\<open>search_files\<close>\<close>

text \<open>
  The loop over the tree, with the list of matching files built so far. It ends at the
  end of the tree or at the \<^verbatim>\<open>break\<close>; an exception ends the whole function.
\<close>

fun search_files_loop :: "string \<Rightarrow> int \<Rightarrow> pyval list \<Rightarrow> pyval list \<Rightarrow> exn + pyval list" where
  "search_files_loop pattern max_results [] matching = Inr matching"
| "search_files_loop pattern max_results (item # rest) matching =
     (case dict_get item ''type'' PyNone of
        Inl e \<Rightarrow> Inl e
      | Inr t \<Rightarrow>
          if t = PyStr ''blob'' then
            (case dict_get item ''path'' (PyStr []) of
               Inl e \<Rightarrow> Inl e
             | Inr (PyStr p) \<Rightarrow>
                 if fnmatch p pattern then
                   (if int (length (matching @ [item])) \<ge> max_results
                    then Inr (matching @ [item])
                    else search_files_loop pattern max_results rest (matching @ [item]))
                 else search_files_loop pattern max_results rest matching
             | Inr v \<Rightarrow> Inl (OtherError ''TypeError''))
          else search_files_loop pattern max_results rest matching)"

definition search_files ::
  "'r pylib \<Rightarrow> host \<Rightarrow> client \<Rightarrow> string \<Rightarrow> string \<Rightarrow> string \<Rightarrow> int \<Rightarrow> world
     \<Rightarrow> (exn + pyval list) \<times> world" where
  "search_files L H C project pattern ref max_results w =
     (case get_repository_tree L H C project [] ref True 1000 w of
        (Inl e, w1) \<Rightarrow> (Inl e, w1)
      | (Inr tree, w1) \<Rightarrow>
          (case py_iter tree of
             Inl e \<Rightarrow> (Inl e, w1)
           | Inr items \<Rightarrow> (search_files_loop pattern max_results items [], w1)))"

section \<open>Content search: \<^verbatim>\<open>grep_repository_content\<close>\<close>

definition binary_extensions :: "string list" where
  "binary_extensions = [''.jpg'', ''.png'', ''.gif'', ''.pdf'', ''.zip'', ''.exe'', ''.bin'', ''.so'']"

text \<open>
  The first loop: the files to search. With a filter, \<^verbatim>\<open>fnmatch\<close> raises on a path that is
  not a string; \<^verbatim>\<open>file_path.lower()\<close> raises on anything but a string or bytes, and
  \<^verbatim>\<open>endswith\<close> of bytes raises on a string suffix.
\<close>

fun files_to_search_loop ::
  "string option \<Rightarrow> int \<Rightarrow> pyval list \<Rightarrow> pyval list \<Rightarrow> exn + pyval list" where
  "files_to_search_loop file_filter max_files [] files = Inr files"
| "files_to_search_loop file_filter max_files (item # rest) files =
     (case dict_get item ''type'' PyNone of
        Inl e \<Rightarrow> Inl e
      | Inr t \<Rightarrow>
          if t = PyStr ''blob'' then
            (case dict_get item ''path'' (PyStr []) of
               Inl e \<Rightarrow> Inl e
             | Inr (PyStr p) \<Rightarrow>
                 if given file_filter \<and> \<not> fnmatch p (the file_filter)
                 then files_to_search_loop file_filter max_files rest files
                 else if \<exists>ext \<in> set binary_extensions. endswith (lower p) ext
                 then files_to_search_loop file_filter max_files rest files
                 else if int (length (files @ [item])) \<ge> max_files
                 then Inr (files @ [item])
                 else files_to_search_loop file_filter max_files rest (files @ [item])
             | Inr (PyBytes b) \<Rightarrow> Inl (OtherError ''TypeError'')
             | Inr v \<Rightarrow>
                 if given file_filter then Inl (OtherError ''TypeError'')
                 else Inl (OtherError ''AttributeError''))
          else files_to_search_loop file_filter max_files rest files)"

text \<open>
  Lines 427 to 433: the pattern is compiled, and when that raises \<^verbatim>\<open>re.error\<close> the escaped
  pattern is compiled instead, under the same flags. Any other exception of the compiler
  is not caught. The second compilation is inside the handler, so an exception there
  leaves the function too.
\<close>

definition compile_pattern :: "'r pylib \<Rightarrow> string \<Rightarrow> bool \<Rightarrow> exn + 'r" where
  "compile_pattern L pattern case_insensitive =
     (case re_compile L pattern case_insensitive of
        Inr r \<Rightarrow> Inr r
      | Inl e \<Rightarrow>
          if e = ReError then re_compile L (re_escape L pattern) case_insensitive
          else Inl e)"

text \<open>
  The dict \<^verbatim>\<open>match_info\<close>, one field for each of its keys \<^verbatim>\<open>file\<close>, \<^verbatim>\<open>line_number\<close>,
  \<^verbatim>\<open>line\<close>, \<^verbatim>\<open>match\<close> and \<^verbatim>\<open>context\<close>; \<open>m_context\<close> is \<open>None\<close> when the key is absent.
\<close>

record search_match =
  m_file :: pyval
  m_line_number :: int
  m_line :: string
  m_match :: string
  m_context :: "string list option"

text \<open>The loop over \<^verbatim>\<open>enumerate(lines, 1)\<close>; \<open>lines\<close> is the whole file, for the context.\<close>

fun scan_lines ::
  "'r pylib \<Rightarrow> 'r \<Rightarrow> pyval \<Rightarrow> int \<Rightarrow> string list \<Rightarrow> (int \<times> string) list \<Rightarrow> search_match list" where
  "scan_lines L r path context_lines lines [] = []"
| "scan_lines L r path context_lines lines ((line_num, ln) # rest) =
     (case re_search L r ln of
        None \<Rightarrow> scan_lines L r path context_lines lines rest
      | Some g \<Rightarrow>
          \<lparr>m_file = path, m_line_number = line_num, m_line = strip ln, m_match = g,
           m_context =
             (if context_lines > 0 then
                Some (py_slice lines (max 0 (line_num - context_lines - 1))
                        (min (int (length lines)) (line_num + context_lines)))
              else None)\<rparr>
          # scan_lines L r path context_lines lines rest)"

definition scan_content :: "'r pylib \<Rightarrow> 'r \<Rightarrow> pyval \<Rightarrow> int \<Rightarrow> string \<Rightarrow> search_match list" where
  "scan_content L r path context_lines content =
     scan_lines L r path context_lines (split_lines content) (enumerate 1 (split_lines content))"

text \<open>
  The body of the \<^verbatim>\<open>try\<close> for one file: the matches of the file, or the exception that
  the handler will log.
\<close>

definition scan_file ::
  "'r pylib \<Rightarrow> host \<Rightarrow> client \<Rightarrow> string \<Rightarrow> string \<Rightarrow> 'r \<Rightarrow> int \<Rightarrow> pyval \<Rightarrow> world
     \<Rightarrow> (exn + search_match list) \<times> world" where
  "scan_file L H C project ref r context_lines file_item w =
     (case subscript file_item ''path'' of
        Inl e \<Rightarrow> (Inl e, w)
      | Inr p \<Rightarrow>
          (case get_file L H C project p ref w of
             (Inl e, w1) \<Rightarrow> (Inl e, w1)
           | (Inr file_content, w1) \<Rightarrow>
               (case dict_get file_content ''content'' (PyStr []) of
                  Inl e \<Rightarrow> (Inl e, w1)
                | Inr (PyStr content) \<Rightarrow> (Inr (scan_content L r p context_lines content), w1)
                | Inr (PyBytes b) \<Rightarrow> (Inl (OtherError ''TypeError''), w1)
                | Inr v \<Rightarrow> (Inl (OtherError ''AttributeError''), w1))))"

text \<open>
  The second loop. The handler logs the path of the file and goes on with the next file;
  it reads \<^verbatim>\<open>file_item['path']\<close> again, and an exception there leaves the function.
\<close>

fun grep_files ::
  "'r pylib \<Rightarrow> host \<Rightarrow> client \<Rightarrow> string \<Rightarrow> string \<Rightarrow> 'r \<Rightarrow> int \<Rightarrow> pyval list \<Rightarrow> world
     \<Rightarrow> (exn + search_match list) \<times> world" where
  "grep_files L H C project ref r context_lines [] w = (Inr [], w)"
| "grep_files L H C project ref r context_lines (file_item # rest) w =
     (case scan_file L H C project ref r context_lines file_item w of
        (Inr ms, w1) \<Rightarrow>
          (case grep_files L H C project ref r context_lines rest w1 of
             (Inr ms2, w2) \<Rightarrow> (Inr (ms @ ms2), w2)
           | (Inl e, w2) \<Rightarrow> (Inl e, w2))
      | (Inl e, w1) \<Rightarrow>
          (case subscript file_item ''path'' of
             Inl e2 \<Rightarrow> (Inl e2, w1)
           | Inr p \<Rightarrow>
               grep_files L H C project ref r context_lines rest
                 (log_msg (Failed_to_search p e) w1)))"

definition grep_repository_content ::
  "'r pylib \<Rightarrow> host \<Rightarrow> client \<Rightarrow> string \<Rightarrow> string \<Rightarrow> string option \<Rightarrow> string \<Rightarrow> bool \<Rightarrow> int \<Rightarrow> int
     \<Rightarrow> world \<Rightarrow> (exn + search_match list) \<times> world" where
  "grep_repository_content L H C project pattern file_filter ref case_insensitive
       context_lines max_files w =
     (case get_repository_tree L H C project [] ref True 1000 w of
        (Inl e, w1) \<Rightarrow> (Inl e, w1)
      | (Inr tree, w1) \<Rightarrow>
          (case py_iter tree of
             Inl e \<Rightarrow> (Inl e, w1)
           | Inr items \<Rightarrow>
               (case files_to_search_loop file_filter max_files items [] of
                  Inl e \<Rightarrow> (Inl e, w1)
                | Inr files_to_search \<Rightarrow>
                    (case compile_pattern L pattern case_insensitive of
                       Inl e \<Rightarrow> (Inl e, w1)
                     | Inr r \<Rightarrow>
                         grep_files L H C project ref r context_lines files_to_search w1))))"

section \<open>Commit search: \<^verbatim>\<open>search_commits_enhanced\<close>\<close>

text \<open>
  The filter on the commit message, \<open>Inr True\<close> when the commit stays. The message is
  read first; \<^verbatim>\<open>re.search(grep, message, re.IGNORECASE)\<close> then compiles before it looks at
  the message. The handler is for \<^verbatim>\<open>re.error\<close> alone and tests
  \<^verbatim>\<open>grep.lower() in message.lower()\<close>; any other exception of the compiler is not caught.
\<close>

definition message_matches :: "'r pylib \<Rightarrow> string \<Rightarrow> pyval \<Rightarrow> exn + bool" where
  "message_matches L grep commit =
     (case dict_get commit ''message'' (PyStr []) of
        Inl e \<Rightarrow> Inl e
      | Inr m \<Rightarrow>
          (case re_compile L grep True of
             Inr r \<Rightarrow>
               (case m of
                  PyStr s \<Rightarrow> Inr (re_search L r s \<noteq> None)
                | _ \<Rightarrow> Inl (OtherError ''TypeError''))
           | Inl e \<Rightarrow> if e = ReError then lower_contains grep m else Inl e))"

text \<open>
  The filter on the author: the name is looked at first, and the e-mail address only
  when the name does not hold the text.
\<close>

definition author_matches :: "string \<Rightarrow> pyval \<Rightarrow> exn + bool" where
  "author_matches author commit =
     (case dict_get commit ''author_name'' (PyStr []) of
        Inl e \<Rightarrow> Inl e
      | Inr author_name \<Rightarrow>
          (case dict_get commit ''author_email'' (PyStr []) of
             Inl e \<Rightarrow> Inl e
           | Inr author_email \<Rightarrow>
               (case lower_contains author author_name of
                  Inl e \<Rightarrow> Inl e
                | Inr True \<Rightarrow> Inr True
                | Inr False \<Rightarrow> lower_contains author author_email)))"

text \<open>Both filters, each applied only when its argument is given.\<close>

definition keeps :: "'r pylib \<Rightarrow> string option \<Rightarrow> string option \<Rightarrow> pyval \<Rightarrow> exn + bool" where
  "keeps L grep author commit =
     (case (if given grep then message_matches L (the grep) commit else Inr True) of
        Inl e \<Rightarrow> Inl e
      | Inr False \<Rightarrow> Inr False
      | Inr True \<Rightarrow> (if given author then author_matches (the author) commit else Inr True))"

fun commits_loop ::
  "'r pylib \<Rightarrow> string option \<Rightarrow> string option \<Rightarrow> int \<Rightarrow> pyval list \<Rightarrow> pyval list
     \<Rightarrow> exn + pyval list" where
  "commits_loop L grep author limit [] filtered = Inr filtered"
| "commits_loop L grep author limit (commit # rest) filtered =
     (case keeps L grep author commit of
        Inl e \<Rightarrow> Inl e
      | Inr False \<Rightarrow> commits_loop L grep author limit rest filtered
      | Inr True \<Rightarrow>
          if int (length (filtered @ [commit])) \<ge> limit
          then Inr (filtered @ [commit])
          else commits_loop L grep author limit rest (filtered @ [commit]))"

text \<open>\<^verbatim>\<open>file_path\<close> is a parameter of the function and is not read by its body.\<close>

definition search_commits_enhanced ::
  "'r pylib \<Rightarrow> host \<Rightarrow> client \<Rightarrow> string \<Rightarrow> string option \<Rightarrow> string option \<Rightarrow> string option
     \<Rightarrow> string option \<Rightarrow> string option \<Rightarrow> int \<Rightarrow> world \<Rightarrow> (exn + pyval list) \<times> world" where
  "search_commits_enhanced L H C project grep author file_path since until limit w =
     (case list_commits L H C project None since until w of
        (Inl e, w1) \<Rightarrow> (Inl e, w1)
      | (Inr commits, w1) \<Rightarrow>
          (case slice_to commits (limit * 3) of
             Inl e \<Rightarrow> (Inl e, w1)
           | Inr window \<Rightarrow> (commits_loop L grep author limit window [], w1)))"

section \<open>An example library and example hosts\<close>

text \<open>
  The examples run the client against a library whose functions are small and total.
  Its regular expressions are texts to be found: a backslash makes the next character
  ordinary, and a parenthesis without one is an error, as an unbalanced parenthesis is
  in \<^verbatim>\<open>re\<close>. Escaping puts a backslash before each parenthesis and each backslash.
  On the pattern \<^verbatim>\<open>a{99999999999}\<close> the compiler raises \<^verbatim>\<open>OverflowError\<close>, as that of \<^verbatim>\<open>re\<close>
  does: the repetition count is beyond the limit of the engine.
\<close>

datatype literal_re = Literal bool string

fun unescape :: "string \<Rightarrow> string option" where
  "unescape [] = Some []"
| "unescape [c] =
     (if c = CHR 0x5C \<or> c = CHR ''('' \<or> c = CHR '')'' then None else Some [c])"
| "unescape (c # d # ds) =
     (if c = CHR 0x5C then map_option ((#) d) (unescape ds)
      else if c = CHR ''('' \<or> c = CHR '')'' then None
      else map_option ((#) c) (unescape (d # ds)))"

definition example_escape :: "string \<Rightarrow> string" where
  "example_escape p =
     concat (map (\<lambda>c. if c = CHR 0x5C \<or> c = CHR ''('' \<or> c = CHR '')''
                        then [CHR 0x5C, c] else [c]) p)"

definition example_compile :: "string \<Rightarrow> bool \<Rightarrow> exn + literal_re" where
  "example_compile p ignorecase =
     (if p = ''a{99999999999}'' then Inl (OtherError ''OverflowError'')
      else (case unescape p of
              None \<Rightarrow> Inl ReError
            | Some t \<Rightarrow> Inr (Literal ignorecase t)))"

text \<open>The first place where the text occurs, and what stands there.\<close>

fun find_text :: "bool \<Rightarrow> string \<Rightarrow> string \<Rightarrow> string option" where
  "find_text ic t [] = (if t = [] then Some [] else None)"
| "find_text ic t (c # cs) =
     (if (if ic then lower (take (length t) (c # cs)) = lower t
          else take (length t) (c # cs) = t)
      then Some (take (length t) (c # cs))
      else find_text ic t cs)"

fun example_search :: "literal_re \<Rightarrow> string \<Rightarrow> string option" where
  "example_search (Literal ic t) s = find_text ic t s"

text \<open>
  The decoder takes ASCII only, the bytes below 128, whose highest bit is not set; the
  URL quoting knows the slash.
\<close>

definition ascii_decode :: "bytes \<Rightarrow> string option" where
  "ascii_decode bs = (if \<forall>b \<in> set bs. \<not> digit7 b then Some bs else None)"

definition ascii_replace :: "bytes \<Rightarrow> string" where
  "ascii_replace bs = map (\<lambda>b. if digit7 b then CHR ''?'' else b) bs"

definition example_quote :: "string \<Rightarrow> string" where
  "example_quote s = concat (map (\<lambda>c. if c = CHR ''/'' then ''%2F'' else [c]) s)"

text \<open>
  The documents of the examples: what the host sends, and what \<^verbatim>\<open>json.loads\<close> makes of
  it. The tree of \<^verbatim>\<open>main\<close> has three files and a directory, that of \<^verbatim>\<open>dev\<close> the files
  \<^verbatim>\<open>a.py\<close>, \<^verbatim>\<open>gone.txt\<close> (which the host does not serve) and \<^verbatim>\<open>d.py\<close> (two lines and a final
  newline); \<^verbatim>\<open>a.py\<close> has five lines, the third of
  which holds \<^verbatim>\<open>f(x\<close>; the content of \<^verbatim>\<open>dir/b.py\<close> is the two bytes FF FE, which are not
  UTF-8. Of the two commit lists of ten, three commits each match the author
  \<^verbatim>\<open>alice\<close>: the last three of one list, the second, fifth and tenth of the other. In
  both lists the messages of the third and the seventh commit hold \<^verbatim>\<open>f(x\<close>, once in
  capitals.
\<close>

definition tree_body :: string where
  \<open>tree_body =
     ''[{"type":"blob","path":"a.py"},{"type":"tree","path":"dir"},{"type":"blob","path''
     @ ''":"dir/b.py"},{"type":"blob","path":"dir/c.txt"}]''\<close>

definition tree_entries :: "pyval list" where
  "tree_entries =
     [PyDict [(''type'', PyStr ''blob''), (''path'', PyStr ''a.py'')],
      PyDict [(''type'', PyStr ''tree''), (''path'', PyStr ''dir'')],
      PyDict [(''type'', PyStr ''blob''), (''path'', PyStr ''dir/b.py'')],
      PyDict [(''type'', PyStr ''blob''), (''path'', PyStr ''dir/c.txt'')]]"

definition tree_value :: pyval where
  "tree_value = PyList tree_entries"

definition dev_body :: string where
  \<open>dev_body =
     ''[{"type":"blob","path":"a.py"},{"type":"blob","path":"gone.txt"},{"type":"blob",''
     @ ''"path":"d.py"}]''\<close>

definition dev_entries :: "pyval list" where
  "dev_entries =
     [PyDict [(''type'', PyStr ''blob''), (''path'', PyStr ''a.py'')],
      PyDict [(''type'', PyStr ''blob''), (''path'', PyStr ''gone.txt'')],
      PyDict [(''type'', PyStr ''blob''), (''path'', PyStr ''d.py'')]]"

definition dev_value :: pyval where
  "dev_value = PyList dev_entries"

definition a_py_body :: string where
  \<open>a_py_body =
     ''{"file_path":"a.py","encoding":"base64","content":"b25lCnR3bwp0aHJlZSBmKHgKZm91c''
     @ ''gpmaXZl"}''\<close>

definition a_py_value :: pyval where
  "a_py_value =
     PyDict [(''file_path'', PyStr ''a.py''), (''encoding'', PyStr ''base64''),
       (''content'', PyStr ''b25lCnR3bwp0aHJlZSBmKHgKZm91cgpmaXZl'')]"

definition b_py_body :: string where
  \<open>b_py_body =
     ''{"file_path":"dir/b.py","encoding":"base64","content":"//4="}''\<close>

definition b_py_value :: pyval where
  "b_py_value =
     PyDict [(''file_path'', PyStr ''dir/b.py''), (''encoding'', PyStr ''base64''),
       (''content'', PyStr ''//4='')]"

definition d_py_body :: string where
  \<open>d_py_body =
     ''{"file_path":"d.py","encoding":"base64","content":"eSA9IGYoeCkgKyAxCiAgeiA9IEYoW''
     @ ''Ao="}''\<close>

definition d_py_value :: pyval where
  "d_py_value =
     PyDict [(''file_path'', PyStr ''d.py''), (''encoding'', PyStr ''base64''),
       (''content'', PyStr ''eSA9IGYoeCkgKyAxCiAgeiA9IEYoWAo='')]"

definition late_commits_body :: string where
  \<open>late_commits_body =
     ''[{"id":"c1","message":"m1","author_name":"Bob","author_email":"bob@x.org"},{"id"''
     @ '':"c2","message":"m2","author_name":"Bob","author_email":"bob@x.org"},{"id":"c3",''
     @ ''"message":"Fix F(x) call","author_name":"Bob","author_email":"bob@x.org"},{"id":''
     @ ''"c4","message":"m4","author_name":"Bob","author_email":"bob@x.org"},{"id":"c5","''
     @ ''message":"m5","author_name":"Bob","author_email":"bob@x.org"},{"id":"c6","messag''
     @ ''e":"m6","author_name":"Bob","author_email":"bob@x.org"},{"id":"c7","message":"ca''
     @ ''ll f(x, y)","author_name":"Bob","author_email":"bob@x.org"},{"id":"c8","message"''
     @ '':"m8","author_name":"Alice Doe","author_email":"ad@x.org"},{"id":"c9","message":''
     @ ''"m9","author_name":"A. Doe","author_email":"alice@x.org"},{"id":"c10","message":''
     @ ''"m10","author_name":"ALICE D","author_email":"ad@x.org"}]''\<close>

definition late_commits :: "pyval list" where
  "late_commits =
     [PyDict [(''id'', PyStr ''c1''), (''message'', PyStr ''m1''), (''author_name'',
         PyStr ''Bob''), (''author_email'', PyStr ''bob@x.org'')],
      PyDict [(''id'', PyStr ''c2''), (''message'', PyStr ''m2''), (''author_name'',
         PyStr ''Bob''), (''author_email'', PyStr ''bob@x.org'')],
      PyDict [(''id'', PyStr ''c3''), (''message'', PyStr ''Fix F(x) call''),
         (''author_name'', PyStr ''Bob''), (''author_email'', PyStr ''bob@x.org'')],
      PyDict [(''id'', PyStr ''c4''), (''message'', PyStr ''m4''), (''author_name'',
         PyStr ''Bob''), (''author_email'', PyStr ''bob@x.org'')],
      PyDict [(''id'', PyStr ''c5''), (''message'', PyStr ''m5''), (''author_name'',
         PyStr ''Bob''), (''author_email'', PyStr ''bob@x.org'')],
      PyDict [(''id'', PyStr ''c6''), (''message'', PyStr ''m6''), (''author_name'',
         PyStr ''Bob''), (''author_email'', PyStr ''bob@x.org'')],
      PyDict [(''id'', PyStr ''c7''), (''message'', PyStr ''call f(x, y)''),
         (''author_name'', PyStr ''Bob''), (''author_email'', PyStr ''bob@x.org'')],
      PyDict [(''id'', PyStr ''c8''), (''message'', PyStr ''m8''), (''author_name'',
         PyStr ''Alice Doe''), (''author_email'', PyStr ''ad@x.org'')],
      PyDict [(''id'', PyStr ''c9''), (''message'', PyStr ''m9''), (''author_name'',
         PyStr ''A. Doe''), (''author_email'', PyStr ''alice@x.org'')],
      PyDict [(''id'', PyStr ''c10''), (''message'', PyStr ''m10''), (''author_name'',
         PyStr ''ALICE D''), (''author_email'', PyStr ''ad@x.org'')]]"

definition late_commits_value :: pyval where
  "late_commits_value = PyList late_commits"

definition early_commits_body :: string where
  \<open>early_commits_body =
     ''[{"id":"c1","message":"m1","author_name":"Bob","author_email":"bob@x.org"},{"id"''
     @ '':"c2","message":"m2","author_name":"Alice Doe","author_email":"ad@x.org"},{"id":''
     @ ''"c3","message":"Fix F(x) call","author_name":"Bob","author_email":"bob@x.org"},{''
     @ ''"id":"c4","message":"m4","author_name":"Bob","author_email":"bob@x.org"},{"id":"''
     @ ''c5","message":"m5","author_name":"A. Doe","author_email":"alice@x.org"},{"id":"c''
     @ ''6","message":"m6","author_name":"Bob","author_email":"bob@x.org"},{"id":"c7","me''
     @ ''ssage":"call f(x, y)","author_name":"Bob","author_email":"bob@x.org"},{"id":"c8"''
     @ '',"message":"m8","author_name":"Bob","author_email":"bob@x.org"},{"id":"c9","mess''
     @ ''age":"m9","author_name":"Bob","author_email":"bob@x.org"},{"id":"c10","message":''
     @ ''"m10","author_name":"ALICE D","author_email":"ad@x.org"}]''\<close>

definition early_commits :: "pyval list" where
  "early_commits =
     [PyDict [(''id'', PyStr ''c1''), (''message'', PyStr ''m1''), (''author_name'',
         PyStr ''Bob''), (''author_email'', PyStr ''bob@x.org'')],
      PyDict [(''id'', PyStr ''c2''), (''message'', PyStr ''m2''), (''author_name'',
         PyStr ''Alice Doe''), (''author_email'', PyStr ''ad@x.org'')],
      PyDict [(''id'', PyStr ''c3''), (''message'', PyStr ''Fix F(x) call''),
         (''author_name'', PyStr ''Bob''), (''author_email'', PyStr ''bob@x.org'')],
      PyDict [(''id'', PyStr ''c4''), (''message'', PyStr ''m4''), (''author_name'',
         PyStr ''Bob''), (''author_email'', PyStr ''bob@x.org'')],
      PyDict [(''id'', PyStr ''c5''), (''message'', PyStr ''m5''), (''author_name'',
         PyStr ''A. Doe''), (''author_email'', PyStr ''alice@x.org'')],
      PyDict [(''id'', PyStr ''c6''), (''message'', PyStr ''m6''), (''author_name'',
         PyStr ''Bob''), (''author_email'', PyStr ''bob@x.org'')],
      PyDict [(''id'', PyStr ''c7''), (''message'', PyStr ''call f(x, y)''),
         (''author_name'', PyStr ''Bob''), (''author_email'', PyStr ''bob@x.org'')],
      PyDict [(''id'', PyStr ''c8''), (''message'', PyStr ''m8''), (''author_name'',
         PyStr ''Bob''), (''author_email'', PyStr ''bob@x.org'')],
      PyDict [(''id'', PyStr ''c9''), (''message'', PyStr ''m9''), (''author_name'',
         PyStr ''Bob''), (''author_email'', PyStr ''bob@x.org'')],
      PyDict [(''id'', PyStr ''c10''), (''message'', PyStr ''m10''), (''author_name'',
         PyStr ''ALICE D''), (''author_email'', PyStr ''ad@x.org'')]]"

definition early_commits_value :: pyval where
  "early_commits_value = PyList early_commits"

definition project_body :: string where
  \<open>project_body =
     ''{"id":42,"name":"demo"}''\<close>

definition project_value :: pyval where
  "project_value =
     PyDict [(''id'', PyInt 42), (''name'', PyStr ''demo'')]"

definition example_loads :: "string \<Rightarrow> exn + pyval" where
  "example_loads s =
     (case map_of [(tree_body, tree_value), (dev_body, dev_value), (a_py_body, a_py_value),
                   (b_py_body, b_py_value), (d_py_body, d_py_value),
                   (late_commits_body, late_commits_value),
                   (early_commits_body, early_commits_value),
                   (project_body, project_value)] s of
        Some v \<Rightarrow> Inr v
      | None \<Rightarrow> Inl JSONDecodeError)"

definition example_b64decode :: "string \<Rightarrow> exn + bytes" where
  "example_b64decode s =
     (case map_of [(''b25lCnR3bwp0aHJlZSBmKHgKZm91cgpmaXZl'',
                      ''one\<newline>two\<newline>three f(x\<newline>four\<newline>five''),
                   (''//4='', [CHR 0xFF, CHR 0xFE]),
                   (''eSA9IGYoeCkgKyAxCiAgeiA9IEYoWAo='',
                      ''y = f(x) + 1\<newline>  z = F(X\<newline>'')] s of
        Some bs \<Rightarrow> Inr bs
      | None \<Rightarrow> Inl (OtherError ''binascii.Error''))"

definition example_lib :: "literal_re pylib" where
  "example_lib =
     \<lparr>json_loads = example_loads, json_dumps = (\<lambda>v. ''{}''),
      utf8_decode = ascii_decode, utf8_replace = ascii_replace,
      b64decode = example_b64decode, quote = example_quote,
      re_compile = example_compile, re_search = example_search,
      re_escape = example_escape\<rparr>"

definition example_client :: client where
  "example_client = \<lparr>token = ''secret'', base_url = ''https://gitlab.example'', project_id = ''42''\<rparr>"

definition start :: world where
  "start = \<lparr>runs = 0, slept = 0, logged = []\<rparr>"

text \<open>
  A host that answers by URL (the last word of the command line), the same at every
  execution; for any other URL \<^verbatim>\<open>curl\<close> ends with exit code 7, as it does when it cannot
  connect.
\<close>

definition example_pages :: "(string \<times> string) list" where
  "example_pages =
     [(''https://gitlab.example/api/v4/projects/42/repository/tree?ref=main&per_page=1000&recursive=true'',
         tree_body),
      (''https://gitlab.example/api/v4/projects/42/repository/files/a.py?ref=main'', a_py_body),
      (''https://gitlab.example/api/v4/projects/42/repository/files/dir%2Fb.py?ref=main'', b_py_body),
      (''https://gitlab.example/api/v4/projects/42/repository/files/d.py?ref=main'', d_py_body),
      (''https://gitlab.example/api/v4/projects/42/repository/tree?ref=dev&per_page=1000&recursive=true'',
         dev_body),
      (''https://gitlab.example/api/v4/projects/42/repository/files/a.py?ref=dev'', a_py_body),
      (''https://gitlab.example/api/v4/projects/42/repository/files/d.py?ref=dev'', d_py_body),
      (''https://gitlab.example/api/v4/projects/42/repository/commits'', late_commits_body),
      (''https://gitlab.example/api/v4/projects/42/repository/commits?since=2024-01-01'',
         early_commits_body)]"

definition example_host :: host where
  "example_host n cmd =
     (case map_of example_pages (last cmd) of
        Some body \<Rightarrow> Completed 0 body []
      | None \<Rightarrow> Completed 7 [] [])"

text \<open>
  Hosts for the transport: one that is down, one that sends nothing, one that recovers,
  and one whose first answer is a body of one byte that is not UTF-8 and that is down
  afterwards.
\<close>

definition down_host :: host where
  "down_host n cmd = Completed 7 [] []"

definition silent_host :: host where
  "silent_host n cmd = Completed 0 [] []"



section \<open>Hosts that fail, and well-formed records\<close>

text \<open>
  A transport-level failure of one execution: the timeout, another exception of
  \<^verbatim>\<open>subprocess.run\<close>, or an exit code other than 0.
\<close>

fun transport_failure :: "proc_out \<Rightarrow> bool" where
  "transport_failure (Completed rc out err) = (rc \<noteq> 0)"
| "transport_failure Timed_out = True"
| "transport_failure (Raised cls) = True"

text \<open>An execution that ends with exit code 0 and not one byte of output.\<close>

fun empty_success :: "proc_out \<Rightarrow> bool" where
  "empty_success (Completed rc out err) = (rc = 0 \<and> out = [])"
| "empty_success p = False"

text \<open>
  Either of the two, the second under a decoder that decodes no bytes to no characters.
\<close>

definition fails :: "'r pylib \<Rightarrow> proc_out \<Rightarrow> bool" where
  "fails L p =
     (transport_failure p \<or> (empty_success p \<and> utf8_decode L [] = Some []))"


text \<open>The text of a field of a record, empty when the field is absent.\<close>

definition field_str :: "pyval \<Rightarrow> string \<Rightarrow> string" where
  "field_str c key =
     (case c of
        PyDict kvs \<Rightarrow> (case map_of kvs key of Some (PyStr s) \<Rightarrow> s | _ \<Rightarrow> [])
      | _ \<Rightarrow> [])"

text \<open>A commit record as the host sends it: a dict whose fields, where present, are strings.\<close>

definition str_field :: "(string \<times> pyval) list \<Rightarrow> string \<Rightarrow> bool" where
  "str_field kvs key = (case map_of kvs key of None \<Rightarrow> True | Some (PyStr s) \<Rightarrow> True | _ \<Rightarrow> False)"

definition commit_record :: "pyval \<Rightarrow> bool" where
  "commit_record c =
     (case c of
        PyDict kvs \<Rightarrow>
          str_field kvs ''message'' \<and> str_field kvs ''author_name'' \<and> str_field kvs ''author_email''
      | _ \<Rightarrow> False)"

text \<open>
  The author filter as the specification words it: the text occurs, whatever the case of
  its letters, in the name or in the e-mail address of the author.
\<close>

definition by_author :: "string \<Rightarrow> pyval \<Rightarrow> bool" where
  "by_author author c =
     (contains (lower author) (lower (field_str c ''author_name''))
      \<or> contains (lower author) (lower (field_str c ''author_email'')))"

section \<open>The matches of a file, as the specification describes them\<close>

text \<open>
  The context of a match on line \<open>n\<close> (counted from 1) with \<open>c\<close> context lines: the lines
  \<open>max 1 (n - c)\<close> to \<open>min l (n + c)\<close> of the \<open>l\<close> lines, in order.
\<close>

definition window :: "string list \<Rightarrow> int \<Rightarrow> int \<Rightarrow> string list" where
  "window lines n c =
     map (\<lambda>i. lines ! nat (i - 1)) [max 1 (n - c)..min (int (length lines)) (n + c)]"

text \<open>
  One match for every line that the expression finds something in, in the order of the
  lines: the path, the number of the line, the line without the blanks at its ends, what
  was found, and the context when context lines are asked for.
\<close>

definition line_matches :: "'r pylib \<Rightarrow> 'r \<Rightarrow> pyval \<Rightarrow> int \<Rightarrow> string list \<Rightarrow> search_match list" where
  "line_matches L r path c lines =
     concat (map (\<lambda>n. case re_search L r (lines ! nat (n - 1)) of
                         None \<Rightarrow> []
                       | Some g \<Rightarrow>
                           [\<lparr>m_file = path, m_line_number = n,
                             m_line = strip (lines ! nat (n - 1)), m_match = g,
                             m_context = (if 0 < c then Some (window lines n c) else None)\<rparr>])
               [1..int (length lines)])"

text \<open>A tree entry with a path that is a string.\<close>

definition has_path :: "pyval \<Rightarrow> bool" where
  "has_path item =
     (case item of
        PyDict kvs \<Rightarrow> (case map_of kvs ''path'' of Some (PyStr p) \<Rightarrow> True | _ \<Rightarrow> False)
      | _ \<Rightarrow> False)"

text \<open>
  What fetching a file gives, whenever it is fetched: \<open>Inl e\<close> when \<^verbatim>\<open>get_file\<close> raises
  \<open>e\<close>, \<open>Inr t\<close> when it returns a dict whose content is the text \<open>t\<close>.
\<close>

definition fetch_gives ::
  "'r pylib \<Rightarrow> host \<Rightarrow> client \<Rightarrow> string \<Rightarrow> string \<Rightarrow> string \<Rightarrow> exn + string \<Rightarrow> bool" where
  "fetch_gives L H C project ref p outcome =
     (\<forall>w. case outcome of
             Inl e \<Rightarrow> fst (get_file L H C project (PyStr p) ref w) = Inl e
           | Inr t \<Rightarrow>
               (\<exists>kvs. fst (get_file L H C project (PyStr p) ref w) = Inr (PyDict kvs)
                      \<and> map_of kvs ''content'' = Some (PyStr t)))"

text \<open>
  The matches of one candidate: none when its fetch raises, else those of the lines of
  its text, which are the pieces between its newlines.
\<close>

definition file_matches ::
  "'r pylib \<Rightarrow> 'r \<Rightarrow> int \<Rightarrow> (string \<Rightarrow> exn + string) \<Rightarrow> pyval \<Rightarrow> search_match list" where
  "file_matches L r c outcome item =
     (case outcome (field_str item ''path'') of
        Inl e \<Rightarrow> []
      | Inr t \<Rightarrow> line_matches L r (PyStr (field_str item ''path'')) c (split_lines t))"

text \<open>A host whose answer to a command is the same at every execution.\<close>

definition steady :: "host \<Rightarrow> bool" where
  "steady H = (\<forall>n cmd. H n cmd = H 0 cmd)"

section \<open>The transport gives up after the last attempt\<close>

lemma run_curl_fails:
  assumes "fails L (H (runs w) cmd)" and "fails L (H (Suc (runs w)) cmd)"
  shows "\<exists>w1. ((\<exists>e. run_curl L H cmd w = (Inl e, w1))
               \<or> (\<exists>r. run_curl L H cmd w = (Inr r, w1) \<and> \<not> (returncode r = 0 \<and> nonempty (stdout r))))
            \<and> runs w < runs w1 \<and> runs w1 \<le> runs w + 2
            \<and> slept w1 = slept w \<and> logged w1 = logged w"
proof (cases "H (runs w) cmd")
  case (Completed rc out err)
  show ?thesis
  proof (cases "H (Suc (runs w)) cmd")
    case c2: (Completed rc2 out2 err2)
    with Completed assms show ?thesis
      by (auto simp: run_curl_def run_text_def run_binary_def fails_def mock_result_def
          split: option.splits)
  next
    case Timed_out
    with Completed assms show ?thesis
      by (auto simp: run_curl_def run_text_def run_binary_def fails_def split: option.splits)
  next
    case (Raised cls)
    with Completed assms show ?thesis
      by (auto simp: run_curl_def run_text_def run_binary_def fails_def split: option.splits)
  qed
next
  case Timed_out
  then show ?thesis by (simp add: run_curl_def run_text_def)
next
  case (Raised cls)
  then show ?thesis by (simp add: run_curl_def run_text_def)
qed

lemma attempt_fails:
  assumes "fails L (H (runs w) cmd)" and "fails L (H (Suc (runs w)) cmd)"
  shows "\<exists>w1. attempt L H cmd retries n w = (Next, w1)
            \<and> runs w < runs w1 \<and> runs w1 \<le> runs w + 2
            \<and> slept w1 = slept w + (if n < retries then 2 else 0)
            \<and> length (logged w1) = Suc (length (logged w))"
proof -
  from run_curl_fails [of L H w cmd, OF assms] obtain w1 where
    c: "(\<exists>e. run_curl L H cmd w = (Inl e, w1))
        \<or> (\<exists>r. run_curl L H cmd w = (Inr r, w1) \<and> \<not> (returncode r = 0 \<and> nonempty (stdout r)))"
    and w1: "runs w < runs w1" "runs w1 \<le> runs w + 2" "slept w1 = slept w" "logged w1 = logged w"
    by blast
  from c show ?thesis
  proof
    assume "\<exists>e. run_curl L H cmd w = (Inl e, w1)"
    then obtain e where "run_curl L H cmd w = (Inl e, w1)" by blast
    with w1 show ?thesis
      by (simp add: attempt_def handler_def backoff_def log_msg_def sleep_def)
  next
    assume "\<exists>r. run_curl L H cmd w = (Inr r, w1) \<and> \<not> (returncode r = 0 \<and> nonempty (stdout r))"
    then obtain r where "run_curl L H cmd w = (Inr r, w1)"
      "\<not> (returncode r = 0 \<and> nonempty (stdout r))" by blast
    with w1 show ?thesis
      by (auto simp add: attempt_def backoff_def log_msg_def sleep_def)
  qed
qed

lemma attempts_all_fail:
  assumes "\<forall>n \<ge> runs w. fails L (H n cmd)"
  shows "\<exists>w1. attempts L H cmd retries ns w = (None, w1)
            \<and> runs w + length ns \<le> runs w1 \<and> runs w1 \<le> runs w + 2 * length ns
            \<and> slept w1 = slept w + 2 * length (filter (\<lambda>n. n < retries) ns)
            \<and> length (logged w1) = length (logged w) + length ns"
  using assms
proof (induction ns arbitrary: w)
  case Nil
  then show ?case by simp
next
  case (Cons n ns)
  have "fails L (H (runs w) cmd)" "fails L (H (Suc (runs w)) cmd)"
    using Cons.prems by simp_all
  from attempt_fails [of L H w cmd retries n, OF this] obtain w1 where
    a: "attempt L H cmd retries n w = (Next, w1)"
    and b: "runs w < runs w1" "runs w1 \<le> runs w + 2"
      "slept w1 = slept w + (if n < retries then 2 else 0)"
      "length (logged w1) = Suc (length (logged w))"
    by blast
  have "\<forall>m \<ge> runs w1. fails L (H m cmd)" using Cons.prems b(1) by simp
  from Cons.IH [of w1, OF this] obtain w2 where
    c: "attempts L H cmd retries ns w1 = (None, w2)"
    and d: "runs w1 + length ns \<le> runs w2" "runs w2 \<le> runs w1 + 2 * length ns"
      "slept w2 = slept w1 + 2 * length (filter (\<lambda>n. n < retries) ns)"
      "length (logged w2) = length (logged w1) + length ns"
    by blast
  show ?case using a b c d by auto
qed

lemma filter_upto_less: "length (filter (\<lambda>n. n < r) [1..r]) = nat (r - 1)"
proof (cases "1 \<le> r")
  case True
  then have "[1..r] = [1..r - 1] @ [r]" by (simp add: upto_rec2)
  moreover have "filter (\<lambda>n. n < r) [1..r - 1] = [1..r - 1]" by (rule filter_True) auto
  ultimately show ?thesis by simp
next
  case False
  then show ?thesis by simp
qed

lemma make_request_all_fail:
  assumes "\<forall>n \<ge> runs w. fails L (H n (build_cmd L C (base_url C @ endpoint) meth data))"
  shows "\<exists>w1. make_request L H C endpoint meth data retries w
                 = (Inl (exhausted retries endpoint), w1)
            \<and> length (logged w1) = length (logged w) + nat retries
            \<and> runs w + nat retries \<le> runs w1 \<and> runs w1 \<le> runs w + 2 * nat retries
            \<and> slept w1 = slept w + 2 * nat (retries - 1)"
proof -
  from attempts_all_fail [of w L H "build_cmd L C (base_url C @ endpoint) meth data" retries "[1..retries]", OF assms] obtain w1 where
    "attempts L H (build_cmd L C (base_url C @ endpoint) meth data) retries [1..retries] w = (None, w1)"
    "runs w + length [1..retries] \<le> runs w1" "runs w1 \<le> runs w + 2 * length [1..retries]"
    "slept w1 = slept w + 2 * length (filter (\<lambda>n. n < retries) [1..retries])"
    "length (logged w1) = length (logged w) + length [1..retries]"
    by blast
  then show ?thesis
    by (simp add: make_request_def filter_upto_less)
qed

text \<open>
  C2. When every execution of the command ends in a transport-level failure, the request
  ends by raising one exception whose message holds the number of attempts and the
  endpoint. The loop makes exactly \<open>retries\<close> attempts, each of which logs once; an attempt
  runs the command once or, after a decoding error, twice; the client sleeps two seconds
  between attempts and not after the last.
\<close>

theorem make_request_exhaustion:
  assumes "\<forall>n \<ge> runs w.
             transport_failure (H n (build_cmd L C (base_url C @ endpoint) meth data))"
  shows "\<exists>w1. make_request L H C endpoint meth data retries w
                 = (Inl (Exception (''API request failed after '' @ str_int retries
                                    @ '' attempts: '' @ endpoint)), w1)
            \<and> length (logged w1) = length (logged w) + nat retries
            \<and> runs w + nat retries \<le> runs w1 \<and> runs w1 \<le> runs w + 2 * nat retries
            \<and> slept w1 = slept w + 2 * nat (retries - 1)"
proof -
  from assms
  have "\<forall>n \<ge> runs w. fails L (H n (build_cmd L C (base_url C @ endpoint) meth data))"
    by (simp add: fails_def)
  from make_request_all_fail [of w L H C endpoint meth data retries, OF this]
  show ?thesis by (simp add: exhausted_def)
qed

theorem make_request_exhaustion_witness:
  "\<exists>w1. make_request example_lib down_host example_client ''/api/v4/projects/42'' ''GET'' None 3 start
          = (Inl (Exception ''API request failed after 3 attempts: /api/v4/projects/42''), w1)
       \<and> length (logged w1) = 3 \<and> 3 \<le> runs w1 \<and> runs w1 \<le> 6 \<and> slept w1 = 4"
proof -
  have h: "\<forall>n \<ge> runs start. transport_failure
             (down_host n (build_cmd example_lib example_client
                (base_url example_client @ ''/api/v4/projects/42'') ''GET'' None))"
    by (simp add: down_host_def)
  have s: "str_int 3 = ''3''" by code_simp
  from make_request_exhaustion [of start down_host example_lib example_client
      "''/api/v4/projects/42''" "''GET''" None 3, OF h]
  show ?thesis by (simp add: s start_def)
qed

text \<open>
  C9. Exit code 0 with an empty body is a failed attempt: when every execution ends so, the
  client goes through all its attempts and raises the same exception as for a host that
  is down.
\<close>

theorem make_request_empty_body:
  assumes "utf8_decode L [] = Some []"
    and "\<forall>n \<ge> runs w.
           empty_success (H n (build_cmd L C (base_url C @ endpoint) meth data))"
  shows "\<exists>w1. make_request L H C endpoint meth data retries w
                 = (Inl (Exception (''API request failed after '' @ str_int retries
                                    @ '' attempts: '' @ endpoint)), w1)
            \<and> length (logged w1) = length (logged w) + nat retries
            \<and> runs w + nat retries \<le> runs w1 \<and> runs w1 \<le> runs w + 2 * nat retries
            \<and> slept w1 = slept w + 2 * nat (retries - 1)"
proof -
  from assms
  have "\<forall>n \<ge> runs w. fails L (H n (build_cmd L C (base_url C @ endpoint) meth data))"
    by (simp add: fails_def)
  from make_request_all_fail [of w L H C endpoint meth data retries, OF this]
  show ?thesis by (simp add: exhausted_def)
qed

theorem make_request_empty_body_witness:
  "\<exists>w1. make_request example_lib silent_host example_client ''/api/v4/projects/42'' ''GET'' None 3 start
          = (Inl (Exception ''API request failed after 3 attempts: /api/v4/projects/42''), w1)
       \<and> length (logged w1) = 3 \<and> 3 \<le> runs w1 \<and> runs w1 \<le> 6 \<and> slept w1 = 4"
proof -
  have d: "utf8_decode example_lib [] = Some []"
    by (simp add: example_lib_def ascii_decode_def)
  have h: "\<forall>n \<ge> runs start. empty_success
             (silent_host n (build_cmd example_lib example_client
                (base_url example_client @ ''/api/v4/projects/42'') ''GET'' None))"
    by (simp add: silent_host_def)
  have s: "str_int 3 = ''3''" by code_simp
  from make_request_empty_body [of example_lib start silent_host example_client
      "''/api/v4/projects/42''" "''GET''" None 3, OF d h]
  show ?thesis by (simp add: s start_def)
qed

section \<open>The transport returns the first success\<close>








section \<open>File discovery on the example tree\<close>

text \<open>
  C1. On the tree with the files \<^verbatim>\<open>a.py\<close>, \<^verbatim>\<open>dir/b.py\<close> and \<^verbatim>\<open>dir/c.txt\<close>, the search for
  \<^verbatim>\<open>**/*.py\<close> with at most 100 results returns \<^verbatim>\<open>dir/b.py\<close> alone: the pattern is matched
  by \<^verbatim>\<open>fnmatch\<close>, for which the slash of the pattern must occur in the path, so the file
  at the root is not found.
\<close>

theorem search_files_double_star:
  "search_files example_lib example_host example_client ''42'' ''**/*.py'' ''main'' 100 start
     = (Inr [PyDict [(''type'', PyStr ''blob''), (''path'', PyStr ''dir/b.py'')]],
        \<lparr>runs = 1, slept = 0, logged = []\<rparr>)"
  by code_simp

section \<open>Commit search\<close>

text \<open>
  C8. Two calls of the commit search that differ in the \<^verbatim>\<open>file_path\<close> argument alone, in
  the same world, have the same outcome: the same result or exception, and the same
  effects.
\<close>

theorem search_commits_ignores_file_path:
  "search_commits_enhanced L H C project grep author file_path since until limit w
     = search_commits_enhanced L H C project grep author file_path' since until limit w"
  by (simp add: search_commits_enhanced_def)

lemma str_field_cases:
  assumes "str_field kvs key"
  obtains "map_of kvs key = None" | s where "map_of kvs key = Some (PyStr s)"
  using assms by (auto simp: str_field_def split: option.splits pyval.splits)

lemma keeps_author:
  assumes "commit_record c" and "author \<noteq> []"
  shows "keeps L None (Some author) c = Inr (by_author author c)"
proof -
  from assms(1) obtain kvs where c: "c = PyDict kvs"
    and n: "str_field kvs ''author_name''" and e: "str_field kvs ''author_email''"
    by (auto simp: commit_record_def split: pyval.splits)
  from n e show ?thesis
    by (elim str_field_cases)
      (simp_all add: c keeps_def assms(2) author_matches_def by_author_def field_str_def
        split: bool.splits)
qed

lemma commits_loop_filter:
  assumes "\<forall>c \<in> set xs. keeps L g a c = Inr (P c)" and "int (length acc) < limit"
  shows "commits_loop L g a limit xs acc = Inr (take (nat limit) (acc @ filter P xs))"
  using assms
proof (induction xs arbitrary: acc)
  case Nil
  then show ?case by simp
next
  case (Cons c xs)
  show ?case
  proof (cases "P c")
    case False
    with Cons show ?thesis by simp
  next
    case True
    show ?thesis
    proof (cases "int (length (acc @ [c])) \<ge> limit")
      case full: True
      with Cons.prems(2) have "nat limit = length acc + 1" by simp
      with True full Cons.prems(1) show ?thesis by simp
    next
      case False
      then have "int (length (acc @ [c])) < limit" by simp
      from Cons.IH [of "acc @ [c]", OF _ this] Cons.prems(1) True False
      show ?thesis by simp
    qed
  qed
qed

lemma take_min_len: "take (min k (length xs)) xs = take k xs"
  by (simp add: min_def)

lemma slice_to_window:
  assumes "1 \<le> limit"
  shows "slice_to (PyList xs) (limit * 3) = Inr (take (nat (3 * limit)) xs)"
proof -
  have "nat (limit * 3) = nat (3 * limit)" by (simp add: mult.commute)
  with assms show ?thesis
    by (simp add: py_slice_def slice_index_def take_min_len)
qed

lemma take_filter_window:
  assumes "n \<le> length (filter P (take m xs))"
  shows "take n (filter P (take m xs)) = take n (filter P xs)"
proof -
  have "filter P xs = filter P (take m xs) @ filter P (drop m xs)"
    by (metis append_take_drop_id filter_append)
  with assms show ?thesis by simp
qed

text \<open>
  C7, amended. With an author filter alone and a limit of at least 1, the commit search
  returns the first \<open>limit\<close> commits that match the author among the first \<open>3 * limit\<close>
  commits of the host's list, in the host's order. When that window holds \<open>limit\<close>
  matching commits, these are the first \<open>limit\<close> matching commits of the whole list.
  For ten commits and a limit of 2 the window is the first six commits.
\<close>

theorem search_commits_author_window:
  assumes "list_commits L H C project None since until w = (Inr (PyList commits), w1)"
    and "\<forall>c \<in> set commits. commit_record c"
    and "author \<noteq> []"
    and "1 \<le> limit"
  shows "search_commits_enhanced L H C project None (Some author) file_path since until limit w
           = (Inr (take (nat limit)
                     (filter (by_author author) (take (nat (3 * limit)) commits))), w1)
         \<and> (nat limit \<le> length (filter (by_author author) (take (nat (3 * limit)) commits))
            \<longrightarrow> take (nat limit) (filter (by_author author) (take (nat (3 * limit)) commits))
                = take (nat limit) (filter (by_author author) commits))"
proof -
  have k: "\<forall>c \<in> set (take (nat (3 * limit)) commits).
             keeps L None (Some author) c = Inr (by_author author c)"
    using assms(2) assms(3) by (auto dest: in_set_takeD intro: keeps_author)
  have "commits_loop L None (Some author) limit (take (nat (3 * limit)) commits) []
          = Inr (take (nat limit) ([] @ filter (by_author author) (take (nat (3 * limit)) commits)))"
    by (rule commits_loop_filter [OF k]) (use assms(4) in simp)
  then show ?thesis
    using assms(1) assms(4)
    by (simp add: search_commits_enhanced_def slice_to_window take_filter_window
        del: slice_to.simps)
qed

lemma early_list:
  "list_commits example_lib example_host example_client ''42'' None (Some ''2024-01-01'') None start
     = (Inr (PyList early_commits), \<lparr>runs = 1, slept = 0, logged = []\<rparr>)"
  by code_simp

lemma early_records: "\<forall>c \<in> set early_commits. commit_record c"
  by (simp add: early_commits_def commit_record_def str_field_def)

lemma early_window:
  "take (nat 2) (filter (by_author ''alice'') (take (nat (3 * 2)) early_commits))
     = [early_commits ! 1, early_commits ! 4]"
  by code_simp

theorem search_commits_author_window_witness:
  "search_commits_enhanced example_lib example_host example_client ''42'' None (Some ''alice'')
       None (Some ''2024-01-01'') None 2 start
     = (Inr [early_commits ! 1, early_commits ! 4], \<lparr>runs = 1, slept = 0, logged = []\<rparr>)"
proof -
  have a: "''alice'' \<noteq> []" by simp
  have l: "(1::int) \<le> 2" by simp
  from search_commits_author_window [of example_lib example_host example_client "''42''"
      "Some ''2024-01-01''" None start early_commits "\<lparr>runs = 1, slept = 0, logged = []\<rparr>"
      "''alice''" 2 None, OF early_list early_records a l]
  show ?thesis by (simp only: early_window)
qed

text \<open>
  C7 as stated fails: of the ten commits of this list exactly three match the author,
  the eighth, ninth and tenth, all beyond the window of six; the search with limit 2
  returns no commit.
\<close>

theorem search_commits_author_counterexample:
  "length late_commits = 10
   \<and> filter (by_author ''alice'') late_commits
       = [late_commits ! 7, late_commits ! 8, late_commits ! 9]
   \<and> search_commits_enhanced example_lib example_host example_client ''42'' None (Some ''alice'')
         None None None 2 start
       = (Inr [], \<lparr>runs = 1, slept = 0, logged = []\<rparr>)"
  by code_simp

section \<open>The matches of a file\<close>

lemma context_slice:
  assumes "1 \<le> n" and "n \<le> int (length xs)" and "0 < c"
  shows "py_slice xs (max 0 (n - c - 1)) (min (int (length xs)) (n + c)) = window xs n c"
proof -
  define a where "a = max 0 (n - c - 1)"
  define b where "b = min (int (length xs)) (n + c)"
  have ab: "0 \<le> a" "a < b" "b \<le> int (length xs)" "max 1 (n - c) = a + 1"
    using assms by (auto simp: a_def b_def)
  have nb: "nat b \<le> length xs" "nat a \<le> length xs" "\<not> a < 0" "\<not> b < 0"
    using ab by linarith+
  have s: "py_slice xs a b = take (nat b - nat a) (drop (nat a) xs)"
    by (simp add: py_slice_def slice_index_def Let_def nb min_absorb1)
  have "take (nat b - nat a) (drop (nat a) xs) = map (\<lambda>i. xs ! nat (i - 1)) [a + 1..b]"
  proof (rule nth_equalityI)
    show "length (take (nat b - nat a) (drop (nat a) xs))
            = length (map (\<lambda>i. xs ! nat (i - 1)) [a + 1..b])"
      using ab by auto
  next
    fix i assume "i < length (take (nat b - nat a) (drop (nat a) xs))"
    then have i: "i < nat b - nat a" by simp
    with ab have "[a + 1..b] ! i = a + 1 + int i" by (simp add: nth_upto)
    moreover have "nat (a + 1 + int i - 1) = nat a + i" using ab by simp
    moreover have "i < length [a + 1..b]" using i ab by simp
    ultimately show "take (nat b - nat a) (drop (nat a) xs) ! i
                       = map (\<lambda>i. xs ! nat (i - 1)) [a + 1..b] ! i"
      using i ab by simp
  qed
  with s ab show ?thesis
    by (simp add: window_def a_def [symmetric] b_def [symmetric])
qed

lemma scan_lines_suffix:
  assumes "lines = pre @ xs" and "k = int (length pre) + 1"
  shows "scan_lines L r path c lines (enumerate k xs) =
           concat (map (\<lambda>n. case re_search L r (lines ! nat (n - 1)) of
                               None \<Rightarrow> []
                             | Some g \<Rightarrow>
                                 [\<lparr>m_file = path, m_line_number = n,
                                   m_line = strip (lines ! nat (n - 1)), m_match = g,
                                   m_context = (if 0 < c then Some (window lines n c)
                                                else None)\<rparr>])
                     [k..int (length lines)])"
  using assms
proof (induction xs arbitrary: pre k)
  case Nil
  then show ?case by simp
next
  case (Cons x xs)
  have k: "1 \<le> k" "k \<le> int (length lines)" using Cons.prems by simp_all
  have up: "[k..int (length lines)] = k # [k + 1..int (length lines)]"
    using k by (simp add: upto_rec1)
  have x: "lines ! nat (k - 1) = x" using Cons.prems by simp
  have ih: "scan_lines L r path c lines (enumerate (k + 1) xs) =
           concat (map (\<lambda>n. case re_search L r (lines ! nat (n - 1)) of
                               None \<Rightarrow> []
                             | Some g \<Rightarrow>
                                 [\<lparr>m_file = path, m_line_number = n,
                                   m_line = strip (lines ! nat (n - 1)), m_match = g,
                                   m_context = (if 0 < c then Some (window lines n c)
                                                else None)\<rparr>])
                     [k + 1..int (length lines)])"
    using Cons.prems by (intro Cons.IH [of "pre @ [x]" "k + 1"]) simp_all
  show ?case
  proof (cases "re_search L r x")
    case None
    then show ?thesis by (simp add: up x ih del: scan_lines.simps(2)) (simp add: ih)
  next
    case (Some g)
    have "0 < c \<Longrightarrow> py_slice lines (max 0 (k - c - 1)) (min (int (length lines)) (k + c))
            = window lines k c"
      using context_slice [OF k] by simp
    with Some show ?thesis by (simp add: up x ih)
  qed
qed

lemma scan_content_matches:
  "scan_content L r path c content = line_matches L r path c (split_lines content)"
  using scan_lines_suffix [of "split_lines content" "[]" "split_lines content" 1 L r path c]
  by (simp add: scan_content_def line_matches_def)

section \<open>The scan of the candidates\<close>

lemma has_path_subscript:
  assumes "has_path item"
  shows "subscript item ''path'' = Inr (PyStr (field_str item ''path''))"
  using assms
  by (auto simp: has_path_def field_str_def split: pyval.splits option.splits)

lemma scan_file_raises:
  assumes "has_path item"
    and "fst (get_file L H C project (PyStr (field_str item ''path'')) ref w) = Inl e"
  shows "scan_file L H C project ref r c item w
           = (Inl e, snd (get_file L H C project (PyStr (field_str item ''path'')) ref w))"
  using assms(2)
  by (cases "get_file L H C project (PyStr (field_str item ''path'')) ref w")
    (simp add: scan_file_def has_path_subscript [OF assms(1)])

lemma scan_file_text:
  assumes "has_path item"
    and "fst (get_file L H C project (PyStr (field_str item ''path'')) ref w) = Inr (PyDict kvs)"
    and "map_of kvs ''content'' = Some (PyStr t)"
  shows "scan_file L H C project ref r c item w
           = (Inr (line_matches L r (PyStr (field_str item ''path'')) c (split_lines t)),
              snd (get_file L H C project (PyStr (field_str item ''path'')) ref w))"
  using assms(2,3)
  by (cases "get_file L H C project (PyStr (field_str item ''path'')) ref w")
    (simp add: scan_file_def has_path_subscript [OF assms(1)] scan_content_matches)

lemma grep_files_matches:
  assumes "\<forall>item \<in> set files.
             has_path item
           \<and> fetch_gives L H C project ref (field_str item ''path'')
               (outcome (field_str item ''path''))"
  shows "fst (grep_files L H C project ref r c files w)
           = Inr (concat (map (file_matches L r c outcome) files))"
  using assms
proof (induction files arbitrary: w)
  case Nil
  then show ?case by simp
next
  case (Cons item files)
  let ?p = "field_str item ''path''"
  have hp: "has_path item" using Cons.prems by simp
  have fg: "fetch_gives L H C project ref ?p (outcome ?p)" using Cons.prems by simp
  have ih: "\<And>w'. fst (grep_files L H C project ref r c files w')
                    = Inr (concat (map (file_matches L r c outcome) files))"
    using Cons by simp
  show ?case
  proof (cases "outcome ?p")
    case (Inl e)
    with fg have "fst (get_file L H C project (PyStr ?p) ref w) = Inl e"
      by (simp add: fetch_gives_def)
    moreover from Inl have "file_matches L r c outcome item = []"
      by (simp add: file_matches_def)
    ultimately show ?thesis
      by (simp add: scan_file_raises [OF hp] has_path_subscript [OF hp] ih)
  next
    case (Inr t)
    with fg obtain kvs where
      "fst (get_file L H C project (PyStr ?p) ref w) = Inr (PyDict kvs)"
      "map_of kvs ''content'' = Some (PyStr t)"
      by (auto simp: fetch_gives_def)
    from scan_file_text [OF hp this] have
      s: "scan_file L H C project ref r c item w
           = (Inr (line_matches L r (PyStr ?p) c (split_lines t)),
              snd (get_file L H C project (PyStr ?p) ref w))" .
    obtain res w2 where
      g: "grep_files L H C project ref r c files
            (snd (get_file L H C project (PyStr ?p) ref w)) = (res, w2)"
      by (cases "grep_files L H C project ref r c files
            (snd (get_file L H C project (PyStr ?p) ref w))")
    with ih [of "snd (get_file L H C project (PyStr ?p) ref w)"]
    have "res = Inr (concat (map (file_matches L r c outcome) files))" by simp
    moreover from Inr
    have "file_matches L r c outcome item = line_matches L r (PyStr ?p) c (split_lines t)"
      by (simp add: file_matches_def)
    ultimately show ?thesis using s g by simp
  qed
qed

section \<open>What a request leaves in the world\<close>

text \<open>The log only grows.\<close>

lemma run_curl_logged: "logged (snd (run_curl L H cmd w)) = logged w"
  by (simp add: run_curl_def run_text_def run_binary_def
      split: proc_out.splits option.splits captured.splits)

lemma handler_logged: "set (logged w) \<subseteq> set (logged (handler retries n e w))"
  by (auto simp: handler_def backoff_def log_msg_def sleep_def)

lemma attempt_logged: "set (logged w) \<subseteq> set (logged (snd (attempt L H cmd retries n w)))"
proof -
  obtain x w1 where c: "run_curl L H cmd w = (x, w1)" by (cases "run_curl L H cmd w")
  with run_curl_logged [of L H cmd w] have l: "logged w1 = logged w" by simp
  have h: "\<And>e. set (logged w) \<subseteq> set (logged (handler retries n e w1))"
    using handler_logged [of w1 retries n] l by simp
  have b: "\<And>m. set (logged w) \<subseteq> set (logged (backoff retries n (log_msg m w1)))"
    using l by (auto simp: backoff_def log_msg_def sleep_def)
  show ?thesis
    using c l h b
    by (auto simp: attempt_def split: sum.splits captured.splits option.splits)
qed

lemma attempts_logged: "set (logged w) \<subseteq> set (logged (snd (attempts L H cmd retries ns w)))"
proof (induction ns arbitrary: w)
  case Nil
  show ?case by simp
next
  case (Cons n ns)
  obtain x w1 where a: "attempt L H cmd retries n w = (x, w1)"
    by (cases "attempt L H cmd retries n w")
  with attempt_logged [of w L H cmd retries n] have "set (logged w) \<subseteq> set (logged w1)" by simp
  with Cons.IH [of w1] a show ?case by (cases x) auto
qed

lemma make_request_logged:
  "set (logged w) \<subseteq> set (logged (snd (make_request L H C endpoint meth data retries w)))"
  using attempts_logged [of w L H "build_cmd L C (base_url C @ endpoint) meth data" retries
      "[1..retries]"]
  by (auto simp: make_request_def split: prod.splits option.splits)

lemma get_file_logged:
  "set (logged w) \<subseteq> set (logged (snd (get_file L H C project p ref w)))"
proof (cases p)
  case (PyStr s)
  let ?ep = "''/api/v4/projects/'' @ project @ ''/repository/files/'' @ quote L s
               @ ''?ref='' @ ref"
  from make_request_logged [of w L H C ?ep "''GET''" None 3] PyStr show ?thesis
    by (auto simp: get_file_def split: prod.splits sum.splits pyval.splits option.splits)
qed (simp_all add: get_file_def)

lemma scan_file_logged:
  "set (logged w) \<subseteq> set (logged (snd (scan_file L H C project ref r c item w)))"
proof (cases "subscript item ''path''")
  case (Inl e)
  then show ?thesis by (simp add: scan_file_def)
next
  case (Inr p)
  with get_file_logged [of w L H C project p ref] show ?thesis
    by (auto simp: scan_file_def split: prod.splits sum.splits pyval.splits)
qed

lemma grep_files_logged:
  "set (logged w) \<subseteq> set (logged (snd (grep_files L H C project ref r c files w)))"
proof (induction files arbitrary: w)
  case Nil
  show ?case by simp
next
  case (Cons item files)
  obtain x w1 where s: "scan_file L H C project ref r c item w = (x, w1)"
    by (cases "scan_file L H C project ref r c item w")
  with scan_file_logged [of w L H C project ref r c item]
  have l: "set (logged w) \<subseteq> set (logged w1)" by simp
  show ?case
  proof (cases x)
    case (Inr ms)
    with s l Cons.IH [of w1] show ?thesis
      by (auto split: prod.splits sum.splits)
  next
    case (Inl e)
    show ?thesis
    proof (cases "subscript item ''path''")
      case a: (Inl e2)
      with s Inl l show ?thesis by simp
    next
      case b: (Inr p)
      from l have "set (logged w) \<subseteq> set (logged (log_msg (Failed_to_search p e) w1))"
        by (auto simp: log_msg_def)
      with s Inl b Cons.IH [of "log_msg (Failed_to_search p e) w1"] show ?thesis
        by auto
    qed
  qed
qed

lemma grep_files_logs_failure:
  assumes "has_path item"
    and "\<forall>w. fst (get_file L H C project (PyStr (field_str item ''path'')) ref w) = Inl e"
    and "\<forall>x \<in> set before. has_path x"
  shows "Failed_to_search (PyStr (field_str item ''path'')) e
           \<in> set (logged (snd (grep_files L H C project ref r c (before @ item # rest) w)))"
  using assms(3)
proof (induction before arbitrary: w)
  case Nil
  let ?p = "field_str item ''path''"
  let ?w1 = "snd (get_file L H C project (PyStr ?p) ref w)"
  from assms(2) have "fst (get_file L H C project (PyStr ?p) ref w) = Inl e" by simp
  from scan_file_raises [OF assms(1) this]
  have g: "grep_files L H C project ref r c (item # rest) w
             = grep_files L H C project ref r c rest (log_msg (Failed_to_search (PyStr ?p) e) ?w1)"
    by (simp add: has_path_subscript [OF assms(1)])
  have "Failed_to_search (PyStr ?p) e
          \<in> set (logged (log_msg (Failed_to_search (PyStr ?p) e) ?w1))"
    by (simp add: log_msg_def)
  with grep_files_logged [of "log_msg (Failed_to_search (PyStr ?p) e) ?w1" L H C project ref r c rest]
  show ?case unfolding append_Nil g by auto
next
  case (Cons x xs)
  obtain y w1 where s: "scan_file L H C project ref r c x w = (y, w1)"
    by (cases "scan_file L H C project ref r c x w")
  show ?case
  proof (cases y)
    case (Inr ms)
    with s Cons.IH [of w1] Cons.prems show ?thesis
      by (auto split: prod.splits sum.splits)
  next
    case (Inl e1)
    from Cons.prems have "has_path x" by simp
    from has_path_subscript [OF this] s Inl
      Cons.IH [of "log_msg (Failed_to_search (PyStr (field_str x ''path'')) e1) w1"] Cons.prems
    show ?thesis by auto
  qed
qed


text \<open>
  Against a host that answers a command the same at every execution, what a request
  returns does not depend on the world it starts in.
\<close>

lemma run_curl_const:
  "fst (run_curl L (\<lambda>n. g) cmd w) = fst (run_curl L (\<lambda>n. g) cmd w')"
  by (auto simp: run_curl_def run_text_def run_binary_def
      split: proc_out.splits option.splits captured.splits)

lemma attempt_const:
  "fst (attempt L (\<lambda>n. g) cmd retries n w) = fst (attempt L (\<lambda>n. g) cmd retries n w')"
proof -
  obtain x w1 where a: "run_curl L (\<lambda>n. g) cmd w = (x, w1)"
    by (cases "run_curl L (\<lambda>n. g) cmd w")
  obtain x' w1' where b: "run_curl L (\<lambda>n. g) cmd w' = (x', w1')"
    by (cases "run_curl L (\<lambda>n. g) cmd w'")
  from run_curl_const [of L g cmd w w'] a b have "x' = x" by simp
  with a b show ?thesis
    by (simp add: attempt_def split: sum.splits captured.splits option.splits)
qed

lemma attempts_const:
  "fst (attempts L (\<lambda>n. g) cmd retries ns w) = fst (attempts L (\<lambda>n. g) cmd retries ns w')"
proof (induction ns arbitrary: w w')
  case Nil
  show ?case by simp
next
  case (Cons n ns)
  obtain x w1 where a: "attempt L (\<lambda>n. g) cmd retries n w = (x, w1)"
    by (cases "attempt L (\<lambda>n. g) cmd retries n w")
  obtain x' w1' where b: "attempt L (\<lambda>n. g) cmd retries n w' = (x', w1')"
    by (cases "attempt L (\<lambda>n. g) cmd retries n w'")
  from attempt_const [of L g cmd retries n w w'] a b have "x' = x" by simp
  with a b Cons.IH [of w1 w1'] show ?case by (cases x) simp_all
qed

lemma make_request_const:
  "fst (make_request L (\<lambda>n. g) C endpoint meth data retries w)
     = fst (make_request L (\<lambda>n. g) C endpoint meth data retries w')"
proof -
  let ?a = "attempts L (\<lambda>n. g) (build_cmd L C (base_url C @ endpoint) meth data) retries
              [1..retries]"
  obtain x w1 where a: "?a w = (x, w1)" by (cases "?a w")
  obtain x' w1' where b: "?a w' = (x', w1')" by (cases "?a w'")
  from attempts_const [of L g "build_cmd L C (base_url C @ endpoint) meth data" retries
      "[1..retries]" w w'] a b
  have "x' = x" by simp
  with a b show ?thesis by (cases x) (simp_all add: make_request_def)
qed

lemma get_file_const:
  "fst (get_file L (\<lambda>n. g) C project p ref w) = fst (get_file L (\<lambda>n. g) C project p ref w')"
proof (cases p)
  case (PyStr s)
  define ep where "ep = ''/api/v4/projects/'' @ project @ ''/repository/files/'' @ quote L s
                          @ ''?ref='' @ ref"
  let ?m = "make_request L (\<lambda>n. g) C ep ''GET'' None 3"
  obtain x w1 where a: "?m w = (x, w1)" by (cases "?m w")
  obtain x' w1' where b: "?m w' = (x', w1')" by (cases "?m w'")
  from make_request_const [of L g C ep "''GET''" None 3 w w'] a b have x: "x' = x" by simp
  show ?thesis
    unfolding PyStr get_file_def pyval.case Let_def ep_def [symmetric]
    using a b x by (simp split: sum.splits pyval.splits option.splits)
qed (simp_all add: get_file_def)

lemma get_file_steady:
  assumes "steady H" and "fst (get_file L H C project p ref w0) = x"
  shows "fst (get_file L H C project p ref w) = x"
proof -
  from assms(1) have "H = (\<lambda>n. H 0)" by (auto simp: steady_def)
  with get_file_const [of L "H 0" C project p ref w w0] assms(2) show ?thesis by simp
qed

lemma example_host_steady: "steady example_host"
  by (simp add: steady_def example_host_def)

section \<open>The context of a match\<close>




section \<open>A file that cannot be read is skipped\<close>

text \<open>
  C6. Let the candidates of a search be the files \<open>before\<close>, one file \<open>bad\<close> and the
  files \<open>after\<close>, all with a path; let fetching \<open>bad\<close> raise \<open>e\<close>, and let fetching any other
  candidate give a text. Then the search does not raise: it returns the matches of the
  files \<open>before\<close> and \<open>after\<close>, every one of them and in order, and the failure is in the
  log under the path of \<open>bad\<close>. With no other candidate the result is the empty list.
\<close>

theorem grep_skips_failed_file:
  assumes "get_repository_tree L H C project [] ref True 1000 w = (Inr tree, w1)"
    and "py_iter tree = Inr items"
    and "files_to_search_loop file_filter max_files items [] = Inr (before @ bad # after)"
    and "compile_pattern L pattern case_insensitive = Inr r"
    and "has_path bad"
    and "fetch_gives L H C project ref (field_str bad ''path'') (Inl e)"
    and "\<forall>item \<in> set (before @ after).
           has_path item
         \<and> fetch_gives L H C project ref (field_str item ''path'')
             (Inr (text (field_str item ''path'')))"
  shows "fst (grep_repository_content L H C project pattern file_filter ref case_insensitive
                c max_files w)
           = Inr (concat (map (\<lambda>item. line_matches L r (PyStr (field_str item ''path'')) c
                                        (split_lines (text (field_str item ''path''))))
                            (before @ after)))
       \<and> Failed_to_search (PyStr (field_str bad ''path'')) e
           \<in> set (logged (snd (grep_repository_content L H C project pattern file_filter ref
                                  case_insensitive c max_files w)))"
proof -
  let ?b = "field_str bad ''path''"
  define outcome where "outcome = (\<lambda>p. if p = ?b then Inl e else Inr (text p))"
  have raises: "\<forall>w. fst (get_file L H C project (PyStr ?b) ref w) = Inl e"
    using assms(6) by (simp add: fetch_gives_def)
  have other: "field_str item ''path'' \<noteq> ?b" if "item \<in> set (before @ after)" for item
  proof
    assume "field_str item ''path'' = ?b"
    moreover from assms(7) that
    have "fetch_gives L H C project ref (field_str item ''path'')
            (Inr (text (field_str item ''path'')))" by blast
    ultimately have "fetch_gives L H C project ref ?b (Inr (text ?b))" by simp
    then have "\<exists>kvs. fst (get_file L H C project (PyStr ?b) ref w) = Inr (PyDict kvs)"
      by (auto simp: fetch_gives_def)
    with raises show False by simp
  qed
  have all: "\<forall>item \<in> set (before @ bad # after).
               has_path item
             \<and> fetch_gives L H C project ref (field_str item ''path'')
                 (outcome (field_str item ''path''))"
  proof
    fix item assume "item \<in> set (before @ bad # after)"
    then have "item = bad \<or> item \<in> set (before @ after)" by auto
    then show "has_path item
             \<and> fetch_gives L H C project ref (field_str item ''path'')
                 (outcome (field_str item ''path''))"
    proof
      assume "item = bad"
      with assms(5,6) show ?thesis by (simp add: outcome_def)
    next
      assume i: "item \<in> set (before @ after)"
      with assms(7) other [OF i] show ?thesis by (simp add: outcome_def)
    qed
  qed
  have fm: "file_matches L r c outcome item
              = line_matches L r (PyStr (field_str item ''path'')) c
                  (split_lines (text (field_str item ''path'')))"
    if "item \<in> set (before @ after)" for item
    using other [OF that] by (simp add: file_matches_def outcome_def)
  have "file_matches L r c outcome bad = []"
    by (simp add: file_matches_def outcome_def)
  then have "concat (map (file_matches L r c outcome) (before @ bad # after))
               = concat (map (file_matches L r c outcome) (before @ after))"
    by simp
  also have "map (file_matches L r c outcome) (before @ after)
               = map (\<lambda>item. line_matches L r (PyStr (field_str item ''path'')) c
                                (split_lines (text (field_str item ''path''))))
                   (before @ after)"
    by (rule map_cong [OF refl]) (rule fm)
  finally have ms: "concat (map (file_matches L r c outcome) (before @ bad # after))
      = concat (map (\<lambda>item. line_matches L r (PyStr (field_str item ''path'')) c
                              (split_lines (text (field_str item ''path''))))
                  (before @ after))" .
  have g: "grep_repository_content L H C project pattern file_filter ref case_insensitive
             c max_files w
           = grep_files L H C project ref r c (before @ bad # after) w1"
    using assms(1-4) by (simp add: grep_repository_content_def)
  from assms(7) have hb: "\<forall>x \<in> set before. has_path x" by simp
  from grep_files_matches [of "before @ bad # after" L H C project ref outcome r c w1, OF all]
    grep_files_logs_failure [of bad L H C project ref e before r c after w1,
      OF assms(5) raises hb]
  show ?thesis by (simp only: g ms)
qed

theorem grep_skips_failed_file_witness:
  "fst (grep_repository_content example_lib example_host example_client ''42'' ''f(x'' None
          ''dev'' True 0 50 start)
     = Inr [\<lparr>m_file = PyStr ''a.py'', m_line_number = 3, m_line = ''three f(x'',
              m_match = ''f(x'', m_context = None\<rparr>,
            \<lparr>m_file = PyStr ''d.py'', m_line_number = 1, m_line = ''y = f(x) + 1'',
              m_match = ''f(x'', m_context = None\<rparr>,
            \<lparr>m_file = PyStr ''d.py'', m_line_number = 2, m_line = ''z = F(X'',
              m_match = ''F(X'', m_context = None\<rparr>]
   \<and> Failed_to_search (PyStr ''gone.txt'')
       (Exception ''API request failed after 3 attempts: /api/v4/projects/42/repository/files/gone.txt?ref=dev'')
       \<in> set (logged (snd (grep_repository_content example_lib example_host example_client
                              ''42'' ''f(x'' None ''dev'' True 0 50 start)))"
proof -
  let ?a = "PyDict [(''type'', PyStr ''blob''), (''path'', PyStr ''a.py'')]"
  let ?g = "PyDict [(''type'', PyStr ''blob''), (''path'', PyStr ''gone.txt'')]"
  let ?d = "PyDict [(''type'', PyStr ''blob''), (''path'', PyStr ''d.py'')]"
  let ?ta = "''one\<newline>two\<newline>three f(x\<newline>four\<newline>five''"
  let ?td = "''y = f(x) + 1\<newline>  z = F(X\<newline>''"
  let ?text = "\<lambda>p. if p = ''a.py'' then ?ta else ?td"
  let ?e = "Exception ''API request failed after 3 attempts: /api/v4/projects/42/repository/files/gone.txt?ref=dev''"
  let ?get = "get_file example_lib example_host example_client ''42''"
  have t: "get_repository_tree example_lib example_host example_client ''42'' [] ''dev'' True 1000
             start = (Inr dev_value, \<lparr>runs = 1, slept = 0, logged = []\<rparr>)"
    by code_simp
  have i: "py_iter dev_value = Inr dev_entries" by (simp add: dev_value_def)
  have f: "files_to_search_loop None 50 dev_entries [] = Inr ([?a] @ ?g # [?d])" by code_simp
  have p: "compile_pattern example_lib ''f(x'' True = Inr (Literal True ''f(x'')" by code_simp
  have ga: "fst (?get (PyStr ''a.py'') ''dev'' start)
             = Inr (PyDict [(''file_path'', PyStr ''a.py''), (''encoding'', PyStr ''base64''),
                            (''content'', PyStr ?ta)])"
    by code_simp
  have gd: "fst (?get (PyStr ''d.py'') ''dev'' start)
             = Inr (PyDict [(''file_path'', PyStr ''d.py''), (''encoding'', PyStr ''base64''),
                            (''content'', PyStr ?td)])"
    by code_simp
  have gg: "fst (?get (PyStr ''gone.txt'') ''dev'' start) = Inl ?e"
    by code_simp
  have hp: "has_path ?g" by (simp add: has_path_def)
  have fb: "fetch_gives example_lib example_host example_client ''42'' ''dev''
              (field_str ?g ''path'') (Inl ?e)"
    by (simp add: fetch_gives_def field_str_def get_file_steady [OF example_host_steady gg])
  have fa: "fetch_gives example_lib example_host example_client ''42'' ''dev'' ''a.py'' (Inr ?ta)"
    by (simp add: fetch_gives_def get_file_steady [OF example_host_steady ga])
  have fd: "fetch_gives example_lib example_host example_client ''42'' ''dev'' ''d.py'' (Inr ?td)"
    by (simp add: fetch_gives_def get_file_steady [OF example_host_steady gd])
  have h: "\<forall>item \<in> set ([?a] @ [?d]).
             has_path item
           \<and> fetch_gives example_lib example_host example_client ''42'' ''dev''
               (field_str item ''path'') (Inr (?text (field_str item ''path'')))"
    using fa fd by (simp add: has_path_def field_str_def)
  have m: "concat (map (\<lambda>item. line_matches example_lib (Literal True ''f(x'')
                                  (PyStr (field_str item ''path'')) 0
                                  (split_lines (?text (field_str item ''path''))))
                     ([?a] @ [?d]))
     = [\<lparr>m_file = PyStr ''a.py'', m_line_number = 3, m_line = ''three f(x'',
          m_match = ''f(x'', m_context = None\<rparr>,
        \<lparr>m_file = PyStr ''d.py'', m_line_number = 1, m_line = ''y = f(x) + 1'',
          m_match = ''f(x'', m_context = None\<rparr>,
        \<lparr>m_file = PyStr ''d.py'', m_line_number = 2, m_line = ''z = F(X'',
          m_match = ''F(X'', m_context = None\<rparr>]"
    by code_simp
  have b: "field_str ?g ''path'' = ''gone.txt''" by (simp add: field_str_def)
  from grep_skips_failed_file [of example_lib example_host example_client "''42''" "''dev''"
      start dev_value "\<lparr>runs = 1, slept = 0, logged = []\<rparr>" dev_entries None 50
      "[?a]" ?g "[?d]" "''f(x''" True "Literal True ''f(x''" ?e ?text 0, OF t i f p hp fb h]
  show ?thesis by (simp only: m b)
qed

section \<open>A file that is not UTF-8 is skipped\<close>

lemma grep_files_failed_head:
  assumes "subscript item ''path'' = Inr p"
    and "get_file L H C project p ref w = (Inl e, w1)"
  shows "grep_files L H C project ref r c (item # rest) w
           = grep_files L H C project ref r c rest (log_msg (Failed_to_search p e) w1)"
  using assms by (simp add: scan_file_def)

text \<open>
  C10. When the host answers a file request with a dict whose content decodes from base64
  to bytes that are not UTF-8, \<^verbatim>\<open>get_file\<close> raises \<^verbatim>\<open>UnicodeDecodeError\<close>: it decodes strictly
  and has none of the fallbacks of the transport. In the content search the file is then
  logged and skipped, and the result is that of the remaining files.
\<close>

theorem grep_skips_undecodable_file:
  assumes "make_request L H C
             (''/api/v4/projects/'' @ project @ ''/repository/files/'' @ quote L p
                @ ''?ref='' @ ref) ''GET'' None 3 w
           = (Inr (PyDict kvs), w1)"
    and "map_of kvs ''content'' = Some (PyStr content)"
    and "b64decode L content = Inr bs"
    and "utf8_decode L bs = None"
    and "subscript item ''path'' = Inr (PyStr p)"
  shows "get_file L H C project (PyStr p) ref w = (Inl UnicodeDecodeError, w1)
       \<and> grep_files L H C project ref r c (item # rest) w
           = grep_files L H C project ref r c rest
               (log_msg (Failed_to_search (PyStr p) UnicodeDecodeError) w1)"
proof -
  from assms(1-4)
  have g: "get_file L H C project (PyStr p) ref w = (Inl UnicodeDecodeError, w1)"
    by (simp add: get_file_def decode_content_def)
  from grep_files_failed_head [OF assms(5) g] g show ?thesis by simp
qed

theorem grep_skips_undecodable_file_witness:
  "get_file example_lib example_host example_client ''42'' (PyStr ''dir/b.py'') ''main'' start
     = (Inl UnicodeDecodeError, \<lparr>runs = 1, slept = 0, logged = []\<rparr>)
   \<and> grep_files example_lib example_host example_client ''42'' ''main'' (Literal False ''x'') 0
       [PyDict [(''type'', PyStr ''blob''), (''path'', PyStr ''dir/b.py'')]] start
     = (Inr [], \<lparr>runs = 1, slept = 0,
                  logged = [Failed_to_search (PyStr ''dir/b.py'') UnicodeDecodeError]\<rparr>)"
proof -
  have m: "make_request example_lib example_host example_client
             (''/api/v4/projects/'' @ ''42'' @ ''/repository/files/''
                @ quote example_lib ''dir/b.py'' @ ''?ref='' @ ''main'') ''GET'' None 3 start
           = (Inr (PyDict [(''file_path'', PyStr ''dir/b.py''), (''encoding'', PyStr ''base64''),
                           (''content'', PyStr ''//4='')]),
              \<lparr>runs = 1, slept = 0, logged = []\<rparr>)"
    by code_simp
  have k: "map_of [(''file_path'', PyStr ''dir/b.py''), (''encoding'', PyStr ''base64''),
                   (''content'', PyStr ''//4='')] ''content'' = Some (PyStr ''//4='')"
    by simp
  have b: "b64decode example_lib ''//4='' = Inr [CHR 0xFF, CHR 0xFE]"
    by (simp add: example_lib_def example_b64decode_def)
  have u: "utf8_decode example_lib [CHR 0xFF, CHR 0xFE] = None"
    by (simp add: example_lib_def ascii_decode_def)
  have p: "subscript (PyDict [(''type'', PyStr ''blob''), (''path'', PyStr ''dir/b.py'')]) ''path''
             = Inr (PyStr ''dir/b.py'')" by simp
  from grep_skips_undecodable_file [of example_lib example_host example_client "''42''"
      "''dir/b.py''" "''main''" start _ "\<lparr>runs = 1, slept = 0, logged = []\<rparr>" "''//4=''"
      "[CHR 0xFF, CHR 0xFE]" _ "Literal False ''x''" 0 "[]", OF m k b u p]
  show ?thesis by (simp add: log_msg_def)
qed

section \<open>A pattern that does not compile\<close>

text \<open>
  C4. The handlers of both searches are for \<^verbatim>\<open>re.error\<close> alone. When the compiler raises
  another exception on the pattern, there is no literal search: the content search, after
  it has listed the tree and chosen its candidates, raises that exception, and so does
  the commit search at the first commit of its window. The pattern \<^verbatim>\<open>a{99999999999}\<close> is
  one, the exception is \<^verbatim>\<open>OverflowError\<close>.
\<close>

theorem compile_error_is_raised:
  assumes "pattern \<noteq> []"
    and "\<forall>flag. re_compile L pattern flag = Inl e"
    and "e \<noteq> ReError"
    and "get_repository_tree L H C project [] ref True 1000 w = (Inr tree, w1)"
    and "py_iter tree = Inr items"
    and "files_to_search_loop file_filter max_files items [] = Inr files"
    and "list_commits L H C project None since until w' = (Inr commits, w2)"
    and "slice_to commits (limit * 3) = Inr (PyDict kvs # rest)"
  shows "grep_repository_content L H C project pattern file_filter ref case_insensitive
           context_lines max_files w = (Inl e, w1)
       \<and> search_commits_enhanced L H C project (Some pattern) author file_path since until
           limit w' = (Inl e, w2)"
proof -
  from assms(2,3) have "compile_pattern L pattern case_insensitive = Inl e"
    by (simp add: compile_pattern_def)
  with assms(4-6)
  have g: "grep_repository_content L H C project pattern file_filter ref case_insensitive
             context_lines max_files w = (Inl e, w1)"
    by (simp add: grep_repository_content_def)
  from assms(2,3) have "message_matches L pattern (PyDict kvs) = Inl e"
    by (simp add: message_matches_def)
  with assms(1) have "keeps L (Some pattern) author (PyDict kvs) = Inl e"
    by (simp add: keeps_def)
  then have "commits_loop L (Some pattern) author limit (PyDict kvs # rest) [] = Inl e"
    by simp
  with assms(7,8)
  have "search_commits_enhanced L H C project (Some pattern) author file_path since until
          limit w' = (Inl e, w2)"
    by (simp add: search_commits_enhanced_def)
  with g show ?thesis by (rule conjI)
qed

theorem compile_error_is_raised_witness:
  "grep_repository_content example_lib example_host example_client ''42'' ''a{99999999999}''
       None ''main'' False 0 50 start
     = (Inl (OtherError ''OverflowError''), \<lparr>runs = 1, slept = 0, logged = []\<rparr>)
   \<and> search_commits_enhanced example_lib example_host example_client ''42''
       (Some ''a{99999999999}'') None None None None 2 start
     = (Inl (OtherError ''OverflowError''), \<lparr>runs = 1, slept = 0, logged = []\<rparr>)"
proof -
  let ?kvs = "[(''id'', PyStr ''c1''), (''message'', PyStr ''m1''),
               (''author_name'', PyStr ''Bob''), (''author_email'', PyStr ''bob@x.org'')]"
  have n: "''a{99999999999}'' \<noteq> []" by simp
  have c: "\<forall>flag. re_compile example_lib ''a{99999999999}'' flag
                   = Inl (OtherError ''OverflowError'')"
    by (simp add: example_lib_def example_compile_def)
  have e: "OtherError ''OverflowError'' \<noteq> ReError" by simp
  have t: "get_repository_tree example_lib example_host example_client ''42'' [] ''main'' True
             1000 start = (Inr tree_value, \<lparr>runs = 1, slept = 0, logged = []\<rparr>)"
    by code_simp
  have i: "py_iter tree_value = Inr tree_entries" by (simp add: tree_value_def)
  have f: "files_to_search_loop None 50 tree_entries []
             = Inr [PyDict [(''type'', PyStr ''blob''), (''path'', PyStr ''a.py'')],
                    PyDict [(''type'', PyStr ''blob''), (''path'', PyStr ''dir/b.py'')],
                    PyDict [(''type'', PyStr ''blob''), (''path'', PyStr ''dir/c.txt'')]]"
    by code_simp
  have l: "list_commits example_lib example_host example_client ''42'' None None None start
             = (Inr late_commits_value, \<lparr>runs = 1, slept = 0, logged = []\<rparr>)"
    by code_simp
  have s: "slice_to late_commits_value (2 * 3) = Inr (PyDict ?kvs # tl (take 6 late_commits))"
    by code_simp
  from compile_error_is_raised [of "''a{99999999999}''" example_lib
      "OtherError ''OverflowError''" example_host example_client "''42''" "''main''" start
      tree_value "\<lparr>runs = 1, slept = 0, logged = []\<rparr>" tree_entries None 50 _ None None start
      late_commits_value "\<lparr>runs = 1, slept = 0, logged = []\<rparr>" 2 ?kvs
      "tl (take 6 late_commits)" False 0 None None,
      OF n c e t i f l s]
  show ?thesis .
qed

end
